theory Spec2Isabelle
  imports Main "HOL-Library.Word"
begin

section \<open>Data model\<close>

text \<open>
  The controller of \<^verbatim>\<open>controllers/cloudsecret_controller.go\<close> keeps a Kubernetes
  \<^verbatim>\<open>Secret\<close> (the child, or managed secret) in step with a \<^verbatim>\<open>CloudSecret\<close> (the parent,
  or desired secret), whose \<^verbatim>\<open>Spec.Data\<close> maps keys to references into an external
  secret manager.

  \<^item> \<^verbatim>\<open>[]byte\<close> is a \<open>string\<close> (a list of 8-bit characters).
  \<^item> \<^verbatim>\<open>time.Duration\<close> is a signed 64-bit count of nanoseconds: a \<open>64 word\<close>, compared
    with the signed order \<open><s\<close>; multiplication wraps as Go's does.
  \<^item> \<^verbatim>\<open>types.NamespacedName\<close> is the pair (namespace, name).
  \<^item> Go's \<^verbatim>\<open>error\<close> values are a datatype: the API server's NotFound and AlreadyExists,
    and any other failure with its message.
\<close>

type_synonym bytes = string
type_synonym Duration = "64 word"
type_synonym NamespacedName = "string \<times> string"

datatype error = NotFound | AlreadyExists | Failure string

record ObjectMeta =
  Namespace :: string
  Name :: string
  Labels :: "(string \<times> string) list"
  OwnerReferences :: "string list"
  ResourceVersion :: string

text \<open>
  \<^verbatim>\<open>CloudSecret.Spec\<close>. The declaration of the type lives outside the controller file; the
  controller reads the two fields below. \<open>SyncPeriod\<close> is the integer value of the field
  (a number of seconds); its conversion \<^verbatim>\<open>time.Duration(...)\<close> to int64 is \<open>word_of_int\<close>.
  \<open>Data\<close> is a Go map; it is held as the list of its entries in the order in which
  \<^verbatim>\<open>range\<close> visits them in the cycle at hand (Go does not fix that order). The keys of a
  map are distinct, which the theorems that need it assume.
\<close>

record CloudSecretSpec =
  SyncPeriod :: int
  Data :: "(string \<times> string) list"

record CloudSecret =
  ObjectMeta :: ObjectMeta
  Spec :: CloudSecretSpec

text \<open>\<^verbatim>\<open>corev1.Secret\<close>: \<open>Data\<close> is \<^verbatim>\<open>map[string][]byte\<close>.\<close>

record Secret =
  ObjectMeta :: ObjectMeta
  Type :: string
  Data :: "string \<rightharpoonup> bytes"

text \<open>\<^verbatim>\<open>ctrl.Result\<close>; \<^verbatim>\<open>ctrl.Result{}\<close> is the zero value.\<close>

record Result =
  Requeue :: bool
  RequeueAfter :: Duration

definition emptyResult :: Result where
  "emptyResult = \<lparr>Requeue = False, RequeueAfter = 0\<rparr>"

definition Second :: Duration where
  "Second = 1000000000"

text \<open>Line 32: \<^verbatim>\<open>const defaultRetryTime = time.Duration(5) * time.Second\<close>.\<close>

definition defaultRetryTime :: Duration where
  "defaultRetryTime = 5 * Second"

section \<open>The collaborators: State Store and Secret Resolver\<close>

text \<open>
  Every call that leaves the reconciler is recorded, in order, in \<open>calls\<close>; the log is
  how "never calls the resolver" and "performs no write" are stated.
\<close>

datatype call =
    GetCloudSecret NamespacedName
  | GetSecret NamespacedName
  | CreateSecret Secret
  | UpdateSecret Secret
  | DeleteSecret Secret
  | AccessSecretVersion string

record cluster =
  cloudSecrets :: "NamespacedName \<rightharpoonup> CloudSecret"
  secrets :: "NamespacedName \<rightharpoonup> Secret"
  calls :: "call list"

text \<open>
  The client (\<^verbatim>\<open>client.Client\<close> of controller-runtime) is the environment. Each of its
  five uses in \<^verbatim>\<open>Reconcile\<close> may fail with an error of the environment's choosing, in which
  case the store is left as it was; otherwise the call behaves as the API server does:
  a read of a missing object is NotFound, creating an object that exists is
  AlreadyExists, updating or deleting a missing object is NotFound. Objects are stored
  under their own namespace and name.

  A create does not store the object as it is passed: the server answers with the
  object as it stored it, with what it sets itself (a resource version, a UID,
  defaults), and the client writes that answer into the object it was given.
  \<open>createResponse\<close> is the server's answer for an object; \<open>Create\<close> returns, next to
  the error, the object as the call leaves it: the answer when the create succeeds,
  the object as passed when it fails. The answer is what is stored, under its own
  namespace and name, and the create is AlreadyExists when that name is taken.
\<close>

record Client =
  getCloudSecretFault :: "error option"
  getSecretFault :: "error option"
  createFault :: "error option"
  updateFault :: "error option"
  deleteFault :: "error option"
  createResponse :: "Secret \<Rightarrow> Secret"

definition secretKey :: "Secret \<Rightarrow> NamespacedName" where
  "secretKey obj = (Namespace (Secret.ObjectMeta obj), Name (Secret.ObjectMeta obj))"

definition logCall :: "call \<Rightarrow> cluster \<Rightarrow> cluster" where
  "logCall c s = s\<lparr>calls := calls s @ [c]\<rparr>"

definition Get_CloudSecret ::
  "Client \<Rightarrow> NamespacedName \<Rightarrow> cluster \<Rightarrow> (error + CloudSecret) \<times> cluster" where
  "Get_CloudSecret c key s =
     (let s' = logCall (GetCloudSecret key) s in
      case getCloudSecretFault c of
        Some err \<Rightarrow> (Inl err, s')
      | None \<Rightarrow>
          (case cloudSecrets s key of
             None \<Rightarrow> (Inl NotFound, s')
           | Some obj \<Rightarrow> (Inr obj, s')))"

definition Get_Secret ::
  "Client \<Rightarrow> NamespacedName \<Rightarrow> cluster \<Rightarrow> (error + Secret) \<times> cluster" where
  "Get_Secret c key s =
     (let s' = logCall (GetSecret key) s in
      case getSecretFault c of
        Some err \<Rightarrow> (Inl err, s')
      | None \<Rightarrow>
          (case secrets s key of
             None \<Rightarrow> (Inl NotFound, s')
           | Some obj \<Rightarrow> (Inr obj, s')))"

definition Create ::
  "Client \<Rightarrow> Secret \<Rightarrow> cluster \<Rightarrow> (error option \<times> Secret) \<times> cluster" where
  "Create c obj s =
     (let s' = logCall (CreateSecret obj) s;
          stored = createResponse c obj in
      case createFault c of
        Some err \<Rightarrow> ((Some err, obj), s')
      | None \<Rightarrow>
          (case secrets s (secretKey stored) of
             Some old \<Rightarrow> ((Some AlreadyExists, obj), s')
           | None \<Rightarrow>
               ((None, stored), s'\<lparr>secrets := (secrets s)(secretKey stored \<mapsto> stored)\<rparr>)))"

definition Update :: "Client \<Rightarrow> Secret \<Rightarrow> cluster \<Rightarrow> error option \<times> cluster" where
  "Update c obj s =
     (let s' = logCall (UpdateSecret obj) s in
      case updateFault c of
        Some err \<Rightarrow> (Some err, s')
      | None \<Rightarrow>
          (case secrets s (secretKey obj) of
             None \<Rightarrow> (Some NotFound, s')
           | Some old \<Rightarrow> (None, s'\<lparr>secrets := (secrets s)(secretKey obj \<mapsto> obj)\<rparr>)))"

definition Delete :: "Client \<Rightarrow> Secret \<Rightarrow> cluster \<Rightarrow> error option \<times> cluster" where
  "Delete c obj s =
     (let s' = logCall (DeleteSecret obj) s in
      case deleteFault c of
        Some err \<Rightarrow> (Some err, s')
      | None \<Rightarrow>
          (case secrets s (secretKey obj) of
             None \<Rightarrow> (Some NotFound, s')
           | Some old \<Rightarrow> (None, s'\<lparr>secrets := (secrets s)(secretKey obj := None)\<rparr>)))"

text \<open>
  \<^verbatim>\<open>client.IgnoreNotFound\<close> of controller-runtime: nil for a NotFound error, the error
  itself otherwise.
\<close>

definition IgnoreNotFound :: "error \<Rightarrow> error option" where
  "IgnoreNotFound err = (if err = NotFound then None else Some err)"

text \<open>
  \<^verbatim>\<open>CloudSecretReconciler\<close> (lines 35-40). \<open>Client\<close> is the store client above;
  \<open>GcpSecrets\<close> is the secret manager client, of which \<^verbatim>\<open>Reconcile\<close> uses
  \<^verbatim>\<open>AccessSecretVersion\<close> only: given the reference it answers with an error or with the
  payload's bytes (\<^verbatim>\<open>access.Payload.GetData()\<close>).
\<close>

record CloudSecretReconciler =
  Client :: Client
  GcpSecrets :: "string \<Rightarrow> error + bytes"

text \<open>
  The two methods of \<^verbatim>\<open>CloudSecret\<close> that \<^verbatim>\<open>Reconcile\<close> calls are declared in the package
  \<^verbatim>\<open>api/v1\<close>, outside the controller file. They are parameters of the model: any
  function from the parent to the child's key, and any function from the parent to
  the child object that is created when none is found.
\<close>

record apiV1 =
  GetChildSecretKey :: "CloudSecret \<Rightarrow> NamespacedName"
  InitChildSecret :: "CloudSecret \<Rightarrow> Secret"

section \<open>Reconcile\<close>

text \<open>Line 56: \<^verbatim>\<open>recDelay := time.Duration(cloudSecret.Spec.SyncPeriod) * time.Second\<close>.\<close>

definition recDelay :: "CloudSecret \<Rightarrow> Duration" where
  "recDelay cloudSecret = word_of_int (SyncPeriod (Spec cloudSecret)) * Second"

text \<open>
  Lines 59-68: fetch the child secret; on any error of the read, build the initial
  child and create it. \<open>Inl\<close> is the early return of line 66; \<open>Inr\<close> is the value of
  \<^verbatim>\<open>childSecret\<close> with which line 70 is reached: the object that was read, or the
  initial child as \<^verbatim>\<open>r.Create(ctx, &childSecret)\<close> left it.
\<close>

definition ensureChild ::
  "CloudSecretReconciler \<Rightarrow> apiV1 \<Rightarrow> CloudSecret \<Rightarrow> cluster \<Rightarrow> (error + Secret) \<times> cluster" where
  "ensureChild r api cloudSecret s =
     (case Get_Secret (Client r) (GetChildSecretKey api cloudSecret) s of
        (Inr childSecret, s1) \<Rightarrow> (Inr childSecret, s1)
      | (Inl err, s1) \<Rightarrow>
          (let childSecret = InitChildSecret api cloudSecret in
           case Create (Client r) childSecret s1 of
             ((Some err, childSecret'), s2) \<Rightarrow> (Inl err, s2)
           | ((None, childSecret'), s2) \<Rightarrow> (Inr childSecret', s2)))"

text \<open>
  Lines 79-88: the loop over \<^verbatim>\<open>cloudSecret.Spec.Data\<close>. Its state is the flag
  \<^verbatim>\<open>getSecretFail\<close>, the child secret whose \<open>Data\<close> it fills, and the cluster (for the
  log of calls). A failed access sets the flag and goes on with the next entry.
\<close>

fun resolveLoop ::
  "(string \<Rightarrow> error + bytes) \<Rightarrow> (string \<times> string) list \<Rightarrow> bool \<Rightarrow> Secret \<Rightarrow> cluster
     \<Rightarrow> bool \<times> Secret \<times> cluster" where
  "resolveLoop gcp [] getSecretFail childSecret s = (getSecretFail, childSecret, s)"
| "resolveLoop gcp ((k, v) # rest) getSecretFail childSecret s =
     (let s' = logCall (AccessSecretVersion v) s in
      case gcp v of
        Inl err \<Rightarrow> resolveLoop gcp rest True childSecret s'
      | Inr payload \<Rightarrow>
          resolveLoop gcp rest getSecretFail
            (childSecret\<lparr>Data := (Data childSecret)(k \<mapsto> payload)\<rparr>) s')"

text \<open>
  Lines 96-113: delete the child when nothing was resolved (\<^verbatim>\<open>len(childSecret.Data) == 0\<close>),
  update it otherwise; a failure of either returns \<^verbatim>\<open>ctrl.Result{}\<close> and the error.
\<close>

definition persistChild ::
  "CloudSecretReconciler \<Rightarrow> Result \<Rightarrow> Secret \<Rightarrow> cluster \<Rightarrow> (Result \<times> error option) \<times> cluster" where
  "persistChild r result childSecret s =
     (if Data childSecret = Map.empty then
        (case Delete (Client r) childSecret s of
           (Some err, s') \<Rightarrow> ((emptyResult, Some err), s')
         | (None, s') \<Rightarrow> ((result, None), s'))
      else
        (case Update (Client r) childSecret s of
           (Some err, s') \<Rightarrow> ((emptyResult, Some err), s')
         | (None, s') \<Rightarrow> ((result, None), s')))"

text \<open>
  Lines 45-114. The result is the pair that Go returns, (\<^verbatim>\<open>ctrl.Result\<close>, \<^verbatim>\<open>error\<close>) with
  \<open>None\<close> for nil, and the cluster after the cycle.
\<close>

definition Reconcile ::
  "CloudSecretReconciler \<Rightarrow> apiV1 \<Rightarrow> NamespacedName \<Rightarrow> cluster
     \<Rightarrow> (Result \<times> error option) \<times> cluster" where
  "Reconcile r api req s =
     (case Get_CloudSecret (Client r) req s of
        (Inl err, s1) \<Rightarrow> ((emptyResult, IgnoreNotFound err), s1)
      | (Inr cloudSecret, s1) \<Rightarrow>
          (let result = \<lparr>Requeue = False, RequeueAfter = recDelay cloudSecret\<rparr> in
           case ensureChild r api cloudSecret s1 of
             (Inl err, s2) \<Rightarrow> ((emptyResult, Some err), s2)
           | (Inr childSecret, s2) \<Rightarrow>
               if length (CloudSecretSpec.Data (Spec cloudSecret)) = 0 then ((result, None), s2)
               else
                 (case resolveLoop (GcpSecrets r) (CloudSecretSpec.Data (Spec cloudSecret))
                         False (childSecret\<lparr>Data := Map.empty\<rparr>) s2 of
                    (getSecretFail, childSecret', s3) \<Rightarrow>
                      persistChild r
                        (if getSecretFail \<and> defaultRetryTime <s recDelay cloudSecret
                         then result\<lparr>RequeueAfter := defaultRetryTime\<rparr> else result)
                        childSecret' s3)))"

section \<open>The payload that the loop builds\<close>

text \<open>
  A closed form of what \<open>resolveLoop\<close> leaves in \<open>Data\<close>, used in the proofs: the
  entries whose reference was resolved, each with the bytes returned for it, read as
  a map in which a later entry for a key overrides an earlier one.
\<close>

definition resolvedEntries ::
  "(string \<Rightarrow> error + bytes) \<Rightarrow> (string \<times> string) list \<Rightarrow> (string \<times> bytes) list" where
  "resolvedEntries gcp refs =
     [(fst kv, projr (gcp (snd kv))). kv \<leftarrow> refs, \<not> isl (gcp (snd kv))]"

definition workingPayload ::
  "(string \<Rightarrow> error + bytes) \<Rightarrow> (string \<times> string) list \<Rightarrow> string \<rightharpoonup> bytes" where
  "workingPayload gcp refs = map_of (rev (resolvedEntries gcp refs))"

text \<open>At least one access fails: the value of \<^verbatim>\<open>getSecretFail\<close> after the loop.\<close>

abbreviation someFailed :: "(string \<Rightarrow> error + bytes) \<Rightarrow> (string \<times> string) list \<Rightarrow> bool" where
  "someFailed gcp refs \<equiv> \<exists>kv \<in> set refs. isl (gcp (snd kv))"

section \<open>What a cycle does to the stored secrets\<close>

text \<open>
  A closed form of the secrets in the store after lines 96-113 and after the whole
  cycle on a parent that was found, as functions of the secrets before; used in the
  proof that a second cycle changes nothing. Neither depends on the log of calls.
\<close>

definition persistStore ::
  "Client \<Rightarrow> Secret \<Rightarrow> (NamespacedName \<rightharpoonup> Secret) \<Rightarrow> (NamespacedName \<rightharpoonup> Secret)" where
  "persistStore c childSecret S =
     (if S (secretKey childSecret) = None then S
      else if Data childSecret = Map.empty
      then (if deleteFault c = None then S(secretKey childSecret := None) else S)
      else (if updateFault c = None then S(secretKey childSecret \<mapsto> childSecret) else S))"

definition reconcileStore ::
  "CloudSecretReconciler \<Rightarrow> apiV1 \<Rightarrow> CloudSecret \<Rightarrow> (NamespacedName \<rightharpoonup> Secret)
     \<Rightarrow> (NamespacedName \<rightharpoonup> Secret)" where
  "reconcileStore r api cloudSecret S =
     (let refs = CloudSecretSpec.Data (Spec cloudSecret);
          working = workingPayload (GcpSecrets r) refs;
          init = createResponse (Client r) (InitChildSecret api cloudSecret)
      in case (if getSecretFault (Client r) = None then S (GetChildSecretKey api cloudSecret)
               else None) of
           Some childSecret \<Rightarrow>
             if refs = [] then S
             else persistStore (Client r) (childSecret\<lparr>Data := working\<rparr>) S
         | None \<Rightarrow>
             if createFault (Client r) \<noteq> None \<or> S (secretKey init) \<noteq> None then S
             else if refs = [] then S(secretKey init \<mapsto> init)
             else persistStore (Client r) (init\<lparr>Data := working\<rparr>) (S(secretKey init \<mapsto> init)))"

section \<open>Example objects\<close>

text \<open>
  The objects on which the theorems are tried: a parent \<open>default/creds\<close> with a sync
  period of 60 seconds and two references, of which the resolver \<open>exampleGcp\<close> resolves
  \<open>ra\<close> and fails on everything else, and a child that holds old values for both keys.
\<close>

definition exampleKey :: NamespacedName where
  "exampleKey = (''default'', ''creds'')"

definition exampleMeta :: ObjectMeta where
  "exampleMeta = \<lparr>Namespace = ''default'', Name = ''creds'', Labels = [],
                   OwnerReferences = [], ResourceVersion = ''1''\<rparr>"

text \<open>
  Modelled from the spec: \<^verbatim>\<open>GetChildSecretKey\<close> and \<^verbatim>\<open>InitChildSecret\<close> are declared in
  \<^verbatim>\<open>api/v1\<close>, outside the controller file. The spec says that the child's identity is
  the parent's namespace with a fixed transform of its name, and that the child is
  created empty and owned by its parent. This instance keeps the name as it is. The
  theorems hold for every instance; this one serves the examples.
\<close>

definition exampleApi :: apiV1 where
  "exampleApi =
     \<lparr>GetChildSecretKey =
        (\<lambda>cs. (Namespace (CloudSecret.ObjectMeta cs), Name (CloudSecret.ObjectMeta cs))),
      InitChildSecret =
        (\<lambda>cs. \<lparr>Secret.ObjectMeta =
                 \<lparr>Namespace = Namespace (CloudSecret.ObjectMeta cs),
                  Name = Name (CloudSecret.ObjectMeta cs), Labels = [],
                  OwnerReferences = [Name (CloudSecret.ObjectMeta cs)],
                  ResourceVersion = []\<rparr>,
               Type = ''Opaque'', Data = Map.empty\<rparr>)\<rparr>"

definition exampleParent :: CloudSecret where
  "exampleParent =
     \<lparr>CloudSecret.ObjectMeta = exampleMeta,
      Spec = \<lparr>SyncPeriod = 60, CloudSecretSpec.Data = [(''a'', ''ra''), (''b'', ''rb'')]\<rparr>\<rparr>"

definition emptyParent :: CloudSecret where
  "emptyParent =
     \<lparr>CloudSecret.ObjectMeta = exampleMeta,
      Spec = \<lparr>SyncPeriod = 60, CloudSecretSpec.Data = []\<rparr>\<rparr>"

definition exampleChild :: Secret where
  "exampleChild =
     \<lparr>Secret.ObjectMeta = exampleMeta\<lparr>OwnerReferences := [''creds'']\<rparr>, Type = ''Opaque'',
      Data = [''a'' \<mapsto> ''old'', ''b'' \<mapsto> ''old'']\<rparr>"

text \<open>The cluster with the parent and its child, and the cluster with the parent alone.\<close>

definition exampleCluster :: cluster where
  "exampleCluster =
     \<lparr>cloudSecrets = [exampleKey \<mapsto> exampleParent],
      secrets = [exampleKey \<mapsto> exampleChild], calls = []\<rparr>"

definition freshCluster :: "CloudSecret \<Rightarrow> cluster" where
  "freshCluster parent =
     \<lparr>cloudSecrets = [exampleKey \<mapsto> parent], secrets = Map.empty, calls = []\<rparr>"

text \<open>
  A client none of whose calls fails; the server's answer to a create is the object
  with the resource version 1.
\<close>

definition noFaults :: Client where
  "noFaults = \<lparr>getCloudSecretFault = None, getSecretFault = None, createFault = None,
               updateFault = None, deleteFault = None,
               createResponse =
                 (\<lambda>obj. obj\<lparr>Secret.ObjectMeta :=
                          (Secret.ObjectMeta obj)\<lparr>ResourceVersion := ''1''\<rparr>\<rparr>)\<rparr>"

definition exampleGcp :: "string \<Rightarrow> error + bytes" where
  "exampleGcp v = (if v = ''ra'' then Inr ''new'' else Inl (Failure ''unavailable''))"

definition failingGcp :: "string \<Rightarrow> error + bytes" where
  "failingGcp v = Inl (Failure ''unavailable'')"

definition exampleReconciler :: CloudSecretReconciler where
  "exampleReconciler = \<lparr>Client = noFaults, GcpSecrets = exampleGcp\<rparr>"

section \<open>Facts about the loop\<close>

lemmas model_defs =
  Reconcile_def ensureChild_def persistChild_def Get_CloudSecret_def Get_Secret_def
  Create_def Update_def Delete_def logCall_def secretKey_def recDelay_def Second_def
  defaultRetryTime_def emptyResult_def IgnoreNotFound_def Let_def

lemmas example_defs =
  exampleKey_def exampleApi_def exampleMeta_def exampleParent_def emptyParent_def
  exampleChild_def exampleCluster_def freshCluster_def noFaults_def exampleGcp_def
  failingGcp_def exampleReconciler_def

lemma resolvedEntries_Nil [simp]: "resolvedEntries gcp [] = []"
  by (simp add: resolvedEntries_def)

lemma resolvedEntries_Cons [simp]:
  "resolvedEntries gcp ((k, v) # rest) =
     (case gcp v of Inl err \<Rightarrow> resolvedEntries gcp rest
                  | Inr payload \<Rightarrow> (k, payload) # resolvedEntries gcp rest)"
  by (simp add: resolvedEntries_def split: sum.splits)

lemma resolveLoop_closed:
  "resolveLoop gcp refs fl c s =
     (fl \<or> (\<exists>kv \<in> set refs. isl (gcp (snd kv))),
      c\<lparr>Data := Data c ++ map_of (rev (resolvedEntries gcp refs))\<rparr>,
      s\<lparr>calls := calls s @ map (\<lambda>kv. AccessSecretVersion (snd kv)) refs\<rparr>)"
proof (induction refs arbitrary: fl c s)
  case Nil
  show ?case by simp
next
  case (Cons kv rest)
  obtain k v where kv: "kv = (k, v)" by (cases kv)
  show ?case
  proof (cases "gcp v")
    case (Inl err)
    then show ?thesis
      by (simp add: kv Cons.IH logCall_def)
  next
    case (Inr payload)
    have step: "resolveLoop gcp (kv # rest) fl c s =
        resolveLoop gcp rest fl (c\<lparr>Data := (Data c)(k \<mapsto> payload)\<rparr>)
          (logCall (AccessSecretVersion v) s)"
      using Inr by (simp add: kv)
    have ents: "resolvedEntries gcp (kv # rest) = (k, payload) # resolvedEntries gcp rest"
      using Inr by (simp add: kv)
    have maps: "(Data c)(k \<mapsto> payload) ++ map_of (rev (resolvedEntries gcp rest)) =
                Data c ++ map_of (rev ((k, payload) # resolvedEntries gcp rest))"
      by (rule ext) (simp add: map_add_def split: option.splits)
    have fl: "(\<exists>kv' \<in> set (kv # rest). isl (gcp (snd kv'))) = (\<exists>kv' \<in> set rest. isl (gcp (snd kv')))"
      using Inr by (simp add: kv)
    have cs: "(logCall (AccessSecretVersion v) s)
                \<lparr>calls := calls (logCall (AccessSecretVersion v) s) @
                     map (\<lambda>kv. AccessSecretVersion (snd kv)) rest\<rparr> =
              s\<lparr>calls := calls s @ map (\<lambda>kv. AccessSecretVersion (snd kv)) (kv # rest)\<rparr>"
      by (simp add: logCall_def kv)
    have ds: "(c\<lparr>Data := (Data c)(k \<mapsto> payload)\<rparr>)
                \<lparr>Data := Data (c\<lparr>Data := (Data c)(k \<mapsto> payload)\<rparr>) ++
                     map_of (rev (resolvedEntries gcp rest))\<rparr> =
              c\<lparr>Data := Data c ++ map_of (rev ((k, payload) # resolvedEntries gcp rest))\<rparr>"
      using maps by (simp del: rev.simps map_of.simps)
    show ?thesis
      by (simp only: step Cons.IH ents fl cs ds)
  qed
qed


lemma resolvedEntries_set:
  "(k, b) \<in> set (resolvedEntries gcp refs) \<longleftrightarrow> (\<exists>v. (k, v) \<in> set refs \<and> gcp v = Inr b)"
  by (induction refs) (auto split: sum.splits)

lemma resolvedEntries_keys: "fst ` set (resolvedEntries gcp refs) \<subseteq> fst ` set refs"
proof
  fix k assume "k \<in> fst ` set (resolvedEntries gcp refs)"
  then obtain b where "(k, b) \<in> set (resolvedEntries gcp refs)" by auto
  then obtain v where "(k, v) \<in> set refs" by (auto simp: resolvedEntries_set)
  then show "k \<in> fst ` set refs" by force
qed

lemma resolvedEntries_distinct:
  "distinct (map fst refs) \<Longrightarrow> distinct (map fst (resolvedEntries gcp refs))"
proof (induction refs)
  case Nil
  show ?case by simp
next
  case (Cons kv rest)
  obtain k v where kv: "kv = (k, v)" by (cases kv)
  from Cons.prems have "k \<notin> fst ` set rest" and "distinct (map fst rest)"
    by (simp_all add: kv)
  with resolvedEntries_keys [of gcp rest] Cons.IH show ?case
    by (auto simp: kv split: sum.splits)
qed

lemma resolvedEntries_empty:
  "resolvedEntries gcp refs = [] \<longleftrightarrow> (\<forall>kv \<in> set refs. isl (gcp (snd kv)))"
  by (induction refs) (auto split: sum.splits)

lemma workingPayload_dom: "dom (workingPayload gcp refs) \<subseteq> fst ` set refs"
  using resolvedEntries_keys [of gcp refs]
  by (auto simp: workingPayload_def dom_map_of_conv_image_fst)

lemma workingPayload_empty:
  "workingPayload gcp refs = Map.empty \<longleftrightarrow> (\<forall>kv \<in> set refs. isl (gcp (snd kv)))"
proof -
  have "workingPayload gcp refs = Map.empty \<longleftrightarrow> resolvedEntries gcp refs = []"
    by (simp add: workingPayload_def map_of_eq_empty_iff)
  then show ?thesis by (simp add: resolvedEntries_empty)
qed

lemma workingPayload_Some:
  assumes "distinct (map fst refs)"
  shows "workingPayload gcp refs k = Some b \<longleftrightarrow> (\<exists>v. (k, v) \<in> set refs \<and> gcp v = Inr b)"
proof -
  have d: "distinct (map fst (rev (resolvedEntries gcp refs)))"
    using resolvedEntries_distinct [OF assms, of gcp] by (simp add: rev_map [symmetric])
  have "workingPayload gcp refs k = Some b \<longleftrightarrow> (k, b) \<in> set (rev (resolvedEntries gcp refs))"
    unfolding workingPayload_def using d by (rule map_of_eq_Some_iff)
  then show ?thesis by (simp add: resolvedEntries_set)
qed

lemma workingPayload_order:
  assumes "distinct (map fst refs)" and "distinct (map fst refs')" and "set refs = set refs'"
  shows "workingPayload gcp refs = workingPayload gcp refs'"
    and "someFailed gcp refs \<longleftrightarrow> someFailed gcp refs'"
proof -
  show "workingPayload gcp refs = workingPayload gcp refs'"
  proof (rule ext)
    fix k
    have "\<And>b. workingPayload gcp refs k = Some b \<longleftrightarrow> workingPayload gcp refs' k = Some b"
      by (simp add: workingPayload_Some [OF assms(1)] workingPayload_Some [OF assms(2)] assms(3))
    then show "workingPayload gcp refs k = workingPayload gcp refs' k"
      by (metis not_None_eq)
  qed
  show "someFailed gcp refs \<longleftrightarrow> someFailed gcp refs'"
    using assms(3) by simp
qed

lemma resolveLoop_working:
  "resolveLoop gcp refs False (c\<lparr>Data := Map.empty\<rparr>) s =
     (\<exists>kv \<in> set refs. isl (gcp (snd kv)),
      c\<lparr>Data := workingPayload gcp refs\<rparr>,
      s\<lparr>calls := calls s @ map (\<lambda>kv. AccessSecretVersion (snd kv)) refs\<rparr>)"
  by (simp add: resolveLoop_closed workingPayload_def)


section \<open>The paths through Reconcile\<close>

lemma Reconcile_notfound:
  "Get_CloudSecret (Client r) req s = (Inl err, s1) \<Longrightarrow>
     Reconcile r api req s = ((emptyResult, IgnoreNotFound err), s1)"
  by (simp add: Reconcile_def)

lemma Reconcile_nochild:
  "Get_CloudSecret (Client r) req s = (Inr cloudSecret, s1) \<Longrightarrow>
   ensureChild r api cloudSecret s1 = (Inl err, s2) \<Longrightarrow>
     Reconcile r api req s = ((emptyResult, Some err), s2)"
  by (simp add: Reconcile_def)


lemma Reconcile_refs:
  "Get_CloudSecret (Client r) req s = (Inr cloudSecret, s1) \<Longrightarrow>
   ensureChild r api cloudSecret s1 = (Inr childSecret, s2) \<Longrightarrow>
   CloudSecretSpec.Data (Spec cloudSecret) \<noteq> [] \<Longrightarrow>
     Reconcile r api req s =
       persistChild r
         \<lparr>Requeue = False,
          RequeueAfter =
            (if (\<exists>kv \<in> set (CloudSecretSpec.Data (Spec cloudSecret)). isl (GcpSecrets r (snd kv)))
                \<and> defaultRetryTime <s recDelay cloudSecret
             then defaultRetryTime else recDelay cloudSecret)\<rparr>
         (childSecret\<lparr>Data :=
            workingPayload (GcpSecrets r) (CloudSecretSpec.Data (Spec cloudSecret))\<rparr>)
         (s2\<lparr>calls := calls s2 @
            map (\<lambda>kv. AccessSecretVersion (snd kv)) (CloudSecretSpec.Data (Spec cloudSecret))\<rparr>)"
  by (simp add: Reconcile_def resolveLoop_working)

lemma persistChild_ok:
  "persistChild r result childSecret s = ((res, None), s') \<Longrightarrow> res = result"
  by (auto simp: persistChild_def split: if_splits prod.splits option.splits)

lemma Reconcile_ok_ensureChild:
  assumes "Get_CloudSecret (Client r) req s = (Inr cloudSecret, s1)"
      and "Reconcile r api req s = ((res, None), s')"
  obtains childSecret s2 where "ensureChild r api cloudSecret s1 = (Inr childSecret, s2)"
proof (cases "ensureChild r api cloudSecret s1")
  case (Pair a s2)
  show ?thesis
  proof (cases a)
    case (Inl err)
    with Pair assms show ?thesis by (simp add: Reconcile_nochild)
  next
    case (Inr childSecret)
    with Pair that show ?thesis by simp
  qed
qed

lemma ensureChild_effect:
  assumes "ensureChild r api cloudSecret s1 = (out, s2)"
  shows "cloudSecrets s2 = cloudSecrets s1 \<and>
         (calls s2 = calls s1 @ [GetSecret (GetChildSecretKey api cloudSecret)] \<and>
            secrets s2 = secrets s1 \<and>
            Get_Secret (Client r) (GetChildSecretKey api cloudSecret) s1 = (out, s2) \<and> \<not> isl out
          \<or>
          calls s2 = calls s1 @ [GetSecret (GetChildSecretKey api cloudSecret),
                                 CreateSecret (InitChildSecret api cloudSecret)] \<and>
            isl (fst (Get_Secret (Client r) (GetChildSecretKey api cloudSecret) s1)) \<and>
            (isl out \<and> secrets s2 = secrets s1
             \<or>
             out = Inr (createResponse (Client r) (InitChildSecret api cloudSecret)) \<and>
             secrets s1 (secretKey (createResponse (Client r) (InitChildSecret api cloudSecret)))
               = None \<and>
             secrets s2 =
               (secrets s1)(secretKey (createResponse (Client r) (InitChildSecret api cloudSecret))
                  \<mapsto> createResponse (Client r) (InitChildSecret api cloudSecret))))"
  using assms
  by (auto simp: ensureChild_def Get_Secret_def Create_def logCall_def Let_def
           split: option.splits sum.splits prod.splits)

lemma Get_CloudSecret_effect:
  "Get_CloudSecret c req s = (out, s1) \<Longrightarrow>
     s1 = s\<lparr>calls := calls s @ [GetCloudSecret req]\<rparr>"
  by (auto simp: Get_CloudSecret_def logCall_def Let_def split: option.splits)





lemma Delete_effect:
  assumes "Delete c obj s = (err, s')"
  shows "calls s' = calls s @ [DeleteSecret obj] \<and> cloudSecrets s' = cloudSecrets s \<and>
         (err = None \<longrightarrow> secrets s (secretKey obj) \<noteq> None \<and>
            secrets s' = (secrets s)(secretKey obj := None)) \<and>
         (err \<noteq> None \<longrightarrow> secrets s' = secrets s)"
  using assms
  by (auto simp: Delete_def logCall_def Let_def split: option.splits)

lemma Update_effect:
  assumes "Update c obj s = (err, s')"
  shows "calls s' = calls s @ [UpdateSecret obj] \<and> cloudSecrets s' = cloudSecrets s \<and>
         (err = None \<longrightarrow> secrets s (secretKey obj) \<noteq> None \<and>
            secrets s' = (secrets s)(secretKey obj \<mapsto> obj)) \<and>
         (err \<noteq> None \<longrightarrow> secrets s' = secrets s)"
  using assms
  by (auto simp: Update_def logCall_def Let_def split: option.splits)

lemma persistChild_cases:
  assumes "persistChild r result childSecret s = ((res, err), s')"
  shows "(if Data childSecret = Map.empty
          then Delete (Client r) childSecret s = (err, s')
          else Update (Client r) childSecret s = (err, s')) \<and>
         res = (if err = None then result else emptyResult)"
  using assms
  by (auto simp: persistChild_def split: if_splits option.splits prod.splits)

lemma persistChild_effect:
  assumes "persistChild r result childSecret s = ((res, err), s')"
  shows "cloudSecrets s' = cloudSecrets s \<and>
         res = (if err = None then result else emptyResult) \<and>
         (err \<noteq> None \<longrightarrow> secrets s' = secrets s) \<and>
         (Data childSecret = Map.empty \<longrightarrow>
            calls s' = calls s @ [DeleteSecret childSecret] \<and>
            (err = None \<longrightarrow> secrets s' = (secrets s)(secretKey childSecret := None))) \<and>
         (Data childSecret \<noteq> Map.empty \<longrightarrow>
            calls s' = calls s @ [UpdateSecret childSecret] \<and>
            (err = None \<longrightarrow> secrets s' = (secrets s)(secretKey childSecret \<mapsto> childSecret)))"
proof (cases "Data childSecret = Map.empty")
  case True
  with persistChild_cases [OF assms]
  have "Delete (Client r) childSecret s = (err, s')"
    and "res = (if err = None then result else emptyResult)" by simp_all
  with Delete_effect [of "Client r" childSecret s err s'] True show ?thesis by simp
next
  case False
  with persistChild_cases [OF assms]
  have "Update (Client r) childSecret s = (err, s')"
    and "res = (if err = None then result else emptyResult)" by simp_all
  with Update_effect [of "Client r" childSecret s err s'] False show ?thesis by simp
qed

lemma Reconcile_unfold:
  "Reconcile r api req s =
     (case Get_CloudSecret (Client r) req s of
        (Inl err, s1) \<Rightarrow> ((emptyResult, IgnoreNotFound err), s1)
      | (Inr cloudSecret, s1) \<Rightarrow>
          (case ensureChild r api cloudSecret s1 of
             (Inl err, s2) \<Rightarrow> ((emptyResult, Some err), s2)
           | (Inr childSecret, s2) \<Rightarrow>
               if CloudSecretSpec.Data (Spec cloudSecret) = []
               then ((\<lparr>Requeue = False, RequeueAfter = recDelay cloudSecret\<rparr>, None), s2)
               else
                 persistChild r
                   \<lparr>Requeue = False,
                    RequeueAfter =
                      (if someFailed (GcpSecrets r) (CloudSecretSpec.Data (Spec cloudSecret))
                          \<and> defaultRetryTime <s recDelay cloudSecret
                       then defaultRetryTime else recDelay cloudSecret)\<rparr>
                   (childSecret\<lparr>Data :=
                      workingPayload (GcpSecrets r) (CloudSecretSpec.Data (Spec cloudSecret))\<rparr>)
                   (s2\<lparr>calls := calls s2 @
                      map (\<lambda>kv. AccessSecretVersion (snd kv))
                        (CloudSecretSpec.Data (Spec cloudSecret))\<rparr>)))"
  by (simp add: Reconcile_def resolveLoop_working split: prod.splits sum.splits)

lemma persistChild_store:
  "secrets (snd (persistChild r result childSecret s)) =
     persistStore (Client r) childSecret (secrets s) \<and>
   cloudSecrets (snd (persistChild r result childSecret s)) = cloudSecrets s"
  by (simp add: persistChild_def persistStore_def Delete_def Update_def logCall_def Let_def
           split: option.splits)

lemma ensureChild_store:
  "cloudSecrets (snd (ensureChild r api cloudSecret s)) = cloudSecrets s \<and>
   (case (if getSecretFault (Client r) = None then secrets s (GetChildSecretKey api cloudSecret)
          else None) of
      Some childSecret \<Rightarrow>
        fst (ensureChild r api cloudSecret s) = Inr childSecret \<and>
        secrets (snd (ensureChild r api cloudSecret s)) = secrets s
    | None \<Rightarrow>
        if createFault (Client r) \<noteq> None \<or>
           secrets s (secretKey (createResponse (Client r) (InitChildSecret api cloudSecret)))
             \<noteq> None
        then isl (fst (ensureChild r api cloudSecret s)) \<and>
             secrets (snd (ensureChild r api cloudSecret s)) = secrets s
        else fst (ensureChild r api cloudSecret s) =
               Inr (createResponse (Client r) (InitChildSecret api cloudSecret)) \<and>
             secrets (snd (ensureChild r api cloudSecret s)) =
               (secrets s)(secretKey (createResponse (Client r) (InitChildSecret api cloudSecret))
                  \<mapsto> createResponse (Client r) (InitChildSecret api cloudSecret)))"
  by (auto simp: ensureChild_def Get_Secret_def Create_def logCall_def Let_def
           split: option.splits)

lemma Reconcile_store_found:
  assumes "Get_CloudSecret (Client r) req s = (Inr cloudSecret, s1)"
  shows "secrets (snd (Reconcile r api req s)) = reconcileStore r api cloudSecret (secrets s)"
    and "cloudSecrets (snd (Reconcile r api req s)) = cloudSecrets s"
proof -
  from Get_CloudSecret_effect [OF assms]
  have s1: "secrets s1 = secrets s" "cloudSecrets s1 = cloudSecrets s" by simp_all
  obtain a s2 where ens: "ensureChild r api cloudSecret s1 = (a, s2)"
    by (cases "ensureChild r api cloudSecret s1")
  from ensureChild_store [of r api cloudSecret s1] ens s1
  show "secrets (snd (Reconcile r api req s)) = reconcileStore r api cloudSecret (secrets s)"
    by (cases a)
       (auto simp: Reconcile_unfold assms reconcileStore_def Let_def persistChild_store
             split: option.splits if_splits)
  from ensureChild_store [of r api cloudSecret s1] ens s1
  show "cloudSecrets (snd (Reconcile r api req s)) = cloudSecrets s"
    by (cases a) (auto simp: Reconcile_unfold assms persistChild_store)
qed


section \<open>Error returns carry no requeue interval\<close>

lemma persistChild_error:
  "persistChild r result childSecret s = ((res, Some e), s') \<Longrightarrow> res = emptyResult"
  by (auto simp: persistChild_def split: if_splits prod.splits option.splits)

text \<open>
  Claim C8. Whenever \<open>Reconcile\<close> returns a non-nil error, the result it returns is
  \<^verbatim>\<open>ctrl.Result{}\<close>: \<open>RequeueAfter\<close> is 0 and no requeue is requested, so the interval
  computed from the sync period is not returned.
\<close>

theorem Reconcile_error_no_requeue:
  "Reconcile r api req s = ((res, Some e), s') \<Longrightarrow>
     res = emptyResult \<and> RequeueAfter res = 0 \<and> \<not> Requeue res"
  by (auto simp: Reconcile_def Let_def emptyResult_def
           split: prod.splits sum.splits if_splits dest: persistChild_error)

theorem Reconcile_error_no_requeue_witness:
  "snd (fst (Reconcile (exampleReconciler\<lparr>Client := noFaults\<lparr>createFault := Some (Failure ''forbidden'')\<rparr>\<rparr>)
                exampleApi exampleKey (freshCluster exampleParent)))
     = Some (Failure ''forbidden'') \<and>
   RequeueAfter (fst (fst (Reconcile (exampleReconciler\<lparr>Client := noFaults\<lparr>createFault := Some (Failure ''forbidden'')\<rparr>\<rparr>)
                exampleApi exampleKey (freshCluster exampleParent)))) = 0"
proof -
  let ?out = "Reconcile (exampleReconciler\<lparr>Client := noFaults\<lparr>createFault := Some (Failure ''forbidden'')\<rparr>\<rparr>)
                exampleApi exampleKey (freshCluster exampleParent)"
  have e: "snd (fst ?out) = Some (Failure ''forbidden'')"
    by (simp add: example_defs model_defs)
  then have "?out = ((fst (fst ?out), Some (Failure ''forbidden'')), snd ?out)"
    by (simp add: prod_eq_iff)
  from Reconcile_error_no_requeue [OF this]
  have "RequeueAfter (fst (fst ?out)) = 0" by (rule conjunct2 [THEN conjunct1])
  with e show ?thesis by (rule conjI)
qed

section \<open>The parent is gone, or cannot be read\<close>

text \<open>
  Claim C7. When the lookup of the \<^verbatim>\<open>CloudSecret\<close> fails, \<open>Reconcile\<close> returns at line 53
  with \<^verbatim>\<open>ctrl.Result{}\<close>, whose \<open>RequeueAfter\<close> is 0. For a NotFound error the error
  returned is nil; any other error is returned as it is. The only call made is the
  lookup itself: nothing is created, updated or deleted, the resolver is not called,
  and the store is as it was.
\<close>

theorem Reconcile_parent_lookup_failure:
  "Get_CloudSecret (Client r) req s = (Inl err, s1) \<Longrightarrow>
     Reconcile r api req s = ((emptyResult, if err = NotFound then None else Some err), s1) \<and>
     RequeueAfter emptyResult = 0 \<and>
     calls s1 = calls s @ [GetCloudSecret req] \<and>
     secrets s1 = secrets s \<and> cloudSecrets s1 = cloudSecrets s"
  by (auto simp: Reconcile_def IgnoreNotFound_def emptyResult_def Get_CloudSecret_def logCall_def
                 Let_def
           split: option.splits)

theorem Reconcile_parent_lookup_failure_witness:
  "Get_CloudSecret (Client exampleReconciler) exampleKey \<lparr>cloudSecrets = Map.empty, secrets = [exampleKey \<mapsto> exampleChild], calls = []\<rparr>
     = (Inl NotFound, \<lparr>cloudSecrets = Map.empty, secrets = [exampleKey \<mapsto> exampleChild], calls = [GetCloudSecret exampleKey]\<rparr>) \<and>
   Reconcile exampleReconciler exampleApi exampleKey \<lparr>cloudSecrets = Map.empty, secrets = [exampleKey \<mapsto> exampleChild], calls = []\<rparr>
     = ((\<lparr>Requeue = False, RequeueAfter = 0\<rparr>, None),
        \<lparr>cloudSecrets = Map.empty, secrets = [exampleKey \<mapsto> exampleChild], calls = [GetCloudSecret exampleKey]\<rparr>)"
proof -
  have h: "Get_CloudSecret (Client exampleReconciler) exampleKey \<lparr>cloudSecrets = Map.empty, secrets = [exampleKey \<mapsto> exampleChild], calls = []\<rparr>
     = (Inl NotFound, \<lparr>cloudSecrets = Map.empty, secrets = [exampleKey \<mapsto> exampleChild], calls = [GetCloudSecret exampleKey]\<rparr>)"
    by (simp add: Get_CloudSecret_def logCall_def exampleReconciler_def noFaults_def)
  from Reconcile_parent_lookup_failure [OF h, of exampleApi] h show ?thesis
    by (simp add: emptyResult_def)
qed

section \<open>The requeue interval\<close>

text \<open>
  The base interval is \<open>recDelay\<close>: the sync period in seconds as a \<^verbatim>\<open>time.Duration\<close>. For a
  sync period between 0 and 9223372036 seconds the product of line 56 does not wrap:
  the duration is that many seconds, and it exceeds \<open>defaultRetryTime\<close> exactly when
  the sync period exceeds 5.
\<close>

lemma recDelay_seconds:
  assumes "0 \<le> SyncPeriod (Spec cloudSecret)" and "SyncPeriod (Spec cloudSecret) \<le> 9223372036"
  shows "sint (recDelay cloudSecret) = SyncPeriod (Spec cloudSecret) * 1000000000"
    and "defaultRetryTime <s recDelay cloudSecret \<longleftrightarrow> 5 < SyncPeriod (Spec cloudSecret)"
proof -
  let ?n = "SyncPeriod (Spec cloudSecret)"
  have a: "recDelay cloudSecret = word_of_int (?n * 1000000000)"
    by (simp add: recDelay_def Second_def)
  have b: "sint (word_of_int (?n * 1000000000) :: 64 word) =
           signed_take_bit (LENGTH(64) - 1) (?n * 1000000000)"
    by (rule sint_sbintrunc')
  have "sint (recDelay cloudSecret) = signed_take_bit 63 (?n * 1000000000)"
    unfolding a b by simp
  also have "\<dots> = ?n * 1000000000"
    using assms by (intro signed_take_bit_int_eq_self) simp_all
  finally show s: "sint (recDelay cloudSecret) = ?n * 1000000000" .
  have "sint defaultRetryTime = 5000000000"
    by (simp add: defaultRetryTime_def Second_def)
  with s show "defaultRetryTime <s recDelay cloudSecret \<longleftrightarrow> 5 < ?n"
    by (simp add: word_sless_alt)
qed

text \<open>
  Claim C3, as stated: in every cycle with references that reaches the retry policy of
  lines 90-94, the interval returned is 5 seconds when a resolution failed and the
  sync period exceeds 5 seconds. It fails when the write that follows fails: with a
  sync period of 60 seconds, \<open>rb\<close> failing and the update rejected, the cycle makes both
  resolver calls and the update, and returns \<^verbatim>\<open>ctrl.Result{}\<close>, whose interval is 0.
\<close>

theorem Reconcile_requeue_interval_counterexample:
  "CloudSecretSpec.Data (Spec exampleParent) = [(''a'', ''ra''), (''b'', ''rb'')] \<and>
   SyncPeriod (Spec exampleParent) = 60 \<and>
   exampleGcp ''rb'' = Inl (Failure ''unavailable'') \<and>
   calls (snd (Reconcile
      (exampleReconciler\<lparr>Client := noFaults\<lparr>updateFault := Some (Failure ''conflict'')\<rparr>\<rparr>)
      exampleApi exampleKey exampleCluster)) =
     [GetCloudSecret exampleKey, GetSecret exampleKey,
      AccessSecretVersion ''ra'', AccessSecretVersion ''rb'',
      UpdateSecret (exampleChild\<lparr>Data := [''a'' \<mapsto> ''new'']\<rparr>)] \<and>
   fst (Reconcile
      (exampleReconciler\<lparr>Client := noFaults\<lparr>updateFault := Some (Failure ''conflict'')\<rparr>\<rparr>)
      exampleApi exampleKey exampleCluster) =
     (\<lparr>Requeue = False, RequeueAfter = 0\<rparr>, Some (Failure ''conflict'')) \<and>
   defaultRetryTime = 5000000000 \<and> (0 :: Duration) \<noteq> defaultRetryTime"
  by (simp add: example_defs model_defs)

text \<open>
  Claim C3, amended: in every cycle with references that returns no error, the interval
  returned is \<open>defaultRetryTime\<close> (5 seconds) when a resolution failed and the base
  interval exceeds it; the base interval, unchanged, when a resolution failed and the
  base interval is at most 5 seconds; and the base interval when no resolution failed.
  The base interval is the duration computed at line 56; for a sync period between 0
  and 9223372036 seconds it is that number of seconds, and the comparison with
  5 seconds is the comparison of the sync period with 5.
\<close>

theorem Reconcile_requeue_interval:
  assumes found: "Get_CloudSecret (Client r) req s = (Inr cloudSecret, s1)"
      and refs: "CloudSecretSpec.Data (Spec cloudSecret) \<noteq> []"
      and ok: "Reconcile r api req s = ((res, None), s')"
  shows "(someFailed (GcpSecrets r) (CloudSecretSpec.Data (Spec cloudSecret)) \<and>
            defaultRetryTime <s recDelay cloudSecret \<longrightarrow> RequeueAfter res = defaultRetryTime) \<and>
         (someFailed (GcpSecrets r) (CloudSecretSpec.Data (Spec cloudSecret)) \<and>
            recDelay cloudSecret \<le>s defaultRetryTime \<longrightarrow> RequeueAfter res = recDelay cloudSecret) \<and>
         (\<not> someFailed (GcpSecrets r) (CloudSecretSpec.Data (Spec cloudSecret)) \<longrightarrow>
            RequeueAfter res = recDelay cloudSecret) \<and>
         (0 \<le> SyncPeriod (Spec cloudSecret) \<and> SyncPeriod (Spec cloudSecret) \<le> 9223372036 \<longrightarrow>
            sint (recDelay cloudSecret) = SyncPeriod (Spec cloudSecret) * 1000000000 \<and>
            (defaultRetryTime <s recDelay cloudSecret \<longleftrightarrow> 5 < SyncPeriod (Spec cloudSecret)))"
proof -
  from found ok obtain childSecret s2
    where ens: "ensureChild r api cloudSecret s1 = (Inr childSecret, s2)"
    by (rule Reconcile_ok_ensureChild)
  from ok have "res =
      \<lparr>Requeue = False,
       RequeueAfter =
         (if someFailed (GcpSecrets r) (CloudSecretSpec.Data (Spec cloudSecret))
             \<and> defaultRetryTime <s recDelay cloudSecret
          then defaultRetryTime else recDelay cloudSecret)\<rparr>"
    unfolding Reconcile_refs [OF found ens refs] by (rule persistChild_ok)
  then have policy:
    "someFailed (GcpSecrets r) (CloudSecretSpec.Data (Spec cloudSecret)) \<and>
       defaultRetryTime <s recDelay cloudSecret \<longrightarrow> RequeueAfter res = defaultRetryTime"
    "someFailed (GcpSecrets r) (CloudSecretSpec.Data (Spec cloudSecret)) \<and>
       recDelay cloudSecret \<le>s defaultRetryTime \<longrightarrow> RequeueAfter res = recDelay cloudSecret"
    "\<not> someFailed (GcpSecrets r) (CloudSecretSpec.Data (Spec cloudSecret)) \<longrightarrow>
       RequeueAfter res = recDelay cloudSecret"
    by (auto simp: word_sless_alt word_sle_eq)
  have seconds:
    "0 \<le> SyncPeriod (Spec cloudSecret) \<and> SyncPeriod (Spec cloudSecret) \<le> 9223372036 \<longrightarrow>
       sint (recDelay cloudSecret) = SyncPeriod (Spec cloudSecret) * 1000000000 \<and>
       (defaultRetryTime <s recDelay cloudSecret \<longleftrightarrow> 5 < SyncPeriod (Spec cloudSecret))"
    using recDelay_seconds [of cloudSecret] by blast
  from policy seconds show ?thesis
    by (intro conjI)
qed


theorem Reconcile_requeue_interval_witness:
  "Get_CloudSecret (Client exampleReconciler) exampleKey exampleCluster =
     (Inr exampleParent, exampleCluster\<lparr>calls := [GetCloudSecret exampleKey]\<rparr>) \<and>
   CloudSecretSpec.Data (Spec exampleParent) \<noteq> [] \<and>
   Reconcile exampleReconciler exampleApi exampleKey exampleCluster =
     ((\<lparr>Requeue = False, RequeueAfter = 5000000000\<rparr>, None),
      \<lparr>cloudSecrets = [exampleKey \<mapsto> exampleParent],
       secrets = [exampleKey \<mapsto> exampleChild\<lparr>Data := [''a'' \<mapsto> ''new'']\<rparr>],
       calls = [GetCloudSecret exampleKey, GetSecret exampleKey,
                AccessSecretVersion ''ra'', AccessSecretVersion ''rb'',
                UpdateSecret (exampleChild\<lparr>Data := [''a'' \<mapsto> ''new'']\<rparr>)]\<rparr>) \<and>
   someFailed exampleGcp (CloudSecretSpec.Data (Spec exampleParent)) \<and>
   defaultRetryTime <s recDelay exampleParent \<and>
   RequeueAfter \<lparr>Requeue = False, RequeueAfter = 5000000000\<rparr> = defaultRetryTime"
proof -
  have h1: "Get_CloudSecret (Client exampleReconciler) exampleKey exampleCluster =
     (Inr exampleParent, exampleCluster\<lparr>calls := [GetCloudSecret exampleKey]\<rparr>)"
    by (simp add: example_defs model_defs)
  have h2: "CloudSecretSpec.Data (Spec exampleParent) \<noteq> []"
    by (simp add: example_defs)
  have h3: "Reconcile exampleReconciler exampleApi exampleKey exampleCluster =
     ((\<lparr>Requeue = False, RequeueAfter = 5000000000\<rparr>, None),
      \<lparr>cloudSecrets = [exampleKey \<mapsto> exampleParent],
       secrets = [exampleKey \<mapsto> exampleChild\<lparr>Data := [''a'' \<mapsto> ''new'']\<rparr>],
       calls = [GetCloudSecret exampleKey, GetSecret exampleKey,
                AccessSecretVersion ''ra'', AccessSecretVersion ''rb'',
                UpdateSecret (exampleChild\<lparr>Data := [''a'' \<mapsto> ''new'']\<rparr>)]\<rparr>)"
    by (simp add: example_defs model_defs)
  have h4: "someFailed exampleGcp (CloudSecretSpec.Data (Spec exampleParent))"
    by (simp add: example_defs)
  have h5: "defaultRetryTime <s recDelay exampleParent"
    by (simp add: example_defs model_defs)
  have g: "GcpSecrets exampleReconciler = exampleGcp"
    by (simp add: exampleReconciler_def)
  from Reconcile_requeue_interval [OF h1 h2 h3] h4 h5
  have "RequeueAfter \<lparr>Requeue = False, RequeueAfter = 5000000000\<rparr> = defaultRetryTime"
    unfolding g by blast
  with h1 h2 h3 h4 h5 show ?thesis by blast
qed

section \<open>A parent without references\<close>




section \<open>Every reference is attempted\<close>

text \<open>
  Claim C1. In a cycle on a parent with references that returns no error, lines 59-68
  yield a child, and the loop of lines 79-88 started on it with an empty \<open>Data\<close>
  calls the resolver once for every entry of the references, in order, whether or not
  an earlier call failed. In the child it returns (the working payload) a key holds
  bytes exactly when the references have an entry for the key whose reference the
  resolver answered with those bytes. When the working payload is empty the cycle ends
  with the delete and no object is stored under the child's name; otherwise it ends
  with the update and the object stored there is the working copy. So the keys of the
  stored payload are keys of the references. The keys of the references are distinct,
  as the keys of a Go map are.
\<close>

theorem Reconcile_resolves_every_reference:
  assumes found: "Get_CloudSecret (Client r) req s = (Inr cloudSecret, s1)"
      and refs: "CloudSecretSpec.Data (Spec cloudSecret) \<noteq> []"
      and dist: "distinct (map fst (CloudSecretSpec.Data (Spec cloudSecret)))"
      and ok: "Reconcile r api req s = ((res, None), s')"
  shows "\<exists>childSecret s2 getSecretFail working s3.
           ensureChild r api cloudSecret s1 = (Inr childSecret, s2) \<and>
           resolveLoop (GcpSecrets r) (CloudSecretSpec.Data (Spec cloudSecret)) False
             (childSecret\<lparr>Data := Map.empty\<rparr>) s2 = (getSecretFail, working, s3) \<and>
           calls s3 = calls s2 @
             map (\<lambda>kv. AccessSecretVersion (snd kv)) (CloudSecretSpec.Data (Spec cloudSecret)) \<and>
           (getSecretFail \<longleftrightarrow> someFailed (GcpSecrets r) (CloudSecretSpec.Data (Spec cloudSecret))) \<and>
           (\<forall>k b. Data working k = Some b \<longleftrightarrow>
              (\<exists>v. (k, v) \<in> set (CloudSecretSpec.Data (Spec cloudSecret)) \<and>
                   GcpSecrets r v = Inr b)) \<and>
           (if Data working = Map.empty
            then calls s' = calls s3 @ [DeleteSecret working] \<and>
                 secrets s' (secretKey childSecret) = None
            else calls s' = calls s3 @ [UpdateSecret working] \<and>
                 secrets s' (secretKey childSecret) = Some working) \<and>
           (\<forall>obj. secrets s' (secretKey childSecret) = Some obj \<longrightarrow>
              dom (Data obj) \<subseteq> fst ` set (CloudSecretSpec.Data (Spec cloudSecret)))"
proof -
  let ?refs = "CloudSecretSpec.Data (Spec cloudSecret)"
  let ?W = "workingPayload (GcpSecrets r) ?refs"
  from found ok obtain childSecret s2
    where ens: "ensureChild r api cloudSecret s1 = (Inr childSecret, s2)"
    by (rule Reconcile_ok_ensureChild)
  let ?working = "childSecret\<lparr>Data := ?W\<rparr>"
  let ?s3 = "s2\<lparr>calls := calls s2 @ map (\<lambda>kv. AccessSecretVersion (snd kv)) ?refs\<rparr>"
  have loop: "resolveLoop (GcpSecrets r) ?refs False (childSecret\<lparr>Data := Map.empty\<rparr>) s2 =
                (someFailed (GcpSecrets r) ?refs, ?working, ?s3)"
    by (rule resolveLoop_working)
  have key: "secretKey ?working = secretKey childSecret"
    by (simp add: secretKey_def)
  from ok have pc: "persistChild r
         \<lparr>Requeue = False,
          RequeueAfter =
            (if someFailed (GcpSecrets r) ?refs \<and> defaultRetryTime <s recDelay cloudSecret
             then defaultRetryTime else recDelay cloudSecret)\<rparr> ?working ?s3 = ((res, None), s')"
    by (simp add: Reconcile_refs [OF found ens refs])
  have payload: "\<forall>k b. Data ?working k = Some b \<longleftrightarrow>
                   (\<exists>v. (k, v) \<in> set ?refs \<and> GcpSecrets r v = Inr b)"
    by (simp add: workingPayload_Some [OF dist])
  have fin: "if Data ?working = Map.empty
             then calls s' = calls ?s3 @ [DeleteSecret ?working] \<and>
                  secrets s' (secretKey childSecret) = None
             else calls s' = calls ?s3 @ [UpdateSecret ?working] \<and>
                  secrets s' (secretKey childSecret) = Some ?working"
    using persistChild_effect [OF pc] key by auto
  have sub: "\<forall>obj. secrets s' (secretKey childSecret) = Some obj \<longrightarrow>
               dom (Data obj) \<subseteq> fst ` set ?refs"
  proof (intro allI impI)
    fix obj assume "secrets s' (secretKey childSecret) = Some obj"
    with fin have "obj = ?working" by (auto split: if_splits)
    then show "dom (Data obj) \<subseteq> fst ` set ?refs"
      using workingPayload_dom [of "GcpSecrets r" ?refs] by simp
  qed
  have cs: "calls ?s3 = calls s2 @ map (\<lambda>kv. AccessSecretVersion (snd kv)) ?refs"
    by simp
  from ens loop cs payload fin sub show ?thesis
    by blast
qed


theorem Reconcile_resolves_every_reference_witness:
  "Get_CloudSecret (Client exampleReconciler) exampleKey exampleCluster =
     (Inr exampleParent, exampleCluster\<lparr>calls := [GetCloudSecret exampleKey]\<rparr>) \<and>
   CloudSecretSpec.Data (Spec exampleParent) \<noteq> [] \<and>
   distinct (map fst (CloudSecretSpec.Data (Spec exampleParent))) \<and>
   Reconcile exampleReconciler exampleApi exampleKey exampleCluster =
     ((\<lparr>Requeue = False, RequeueAfter = 5000000000\<rparr>, None),
      \<lparr>cloudSecrets = [exampleKey \<mapsto> exampleParent],
       secrets = [exampleKey \<mapsto> exampleChild\<lparr>Data := [''a'' \<mapsto> ''new'']\<rparr>],
       calls = [GetCloudSecret exampleKey, GetSecret exampleKey,
                AccessSecretVersion ''ra'', AccessSecretVersion ''rb'',
                UpdateSecret (exampleChild\<lparr>Data := [''a'' \<mapsto> ''new'']\<rparr>)]\<rparr>) \<and>
   dom (Data (exampleChild\<lparr>Data := [''a'' \<mapsto> ''new'']\<rparr>))
     \<subseteq> fst ` set (CloudSecretSpec.Data (Spec exampleParent))"
proof -
  let ?s' = "\<lparr>cloudSecrets = [exampleKey \<mapsto> exampleParent],
       secrets = [exampleKey \<mapsto> exampleChild\<lparr>Data := [''a'' \<mapsto> ''new'']\<rparr>],
       calls = [GetCloudSecret exampleKey, GetSecret exampleKey,
                AccessSecretVersion ''ra'', AccessSecretVersion ''rb'',
                UpdateSecret (exampleChild\<lparr>Data := [''a'' \<mapsto> ''new'']\<rparr>)]\<rparr>"
  have h1: "Get_CloudSecret (Client exampleReconciler) exampleKey exampleCluster =
     (Inr exampleParent, exampleCluster\<lparr>calls := [GetCloudSecret exampleKey]\<rparr>)"
    by (simp add: example_defs model_defs)
  have h2: "CloudSecretSpec.Data (Spec exampleParent) \<noteq> []"
    by (simp add: example_defs)
  have h3: "distinct (map fst (CloudSecretSpec.Data (Spec exampleParent)))"
    by (simp add: example_defs)
  have h4: "Reconcile exampleReconciler exampleApi exampleKey exampleCluster =
     ((\<lparr>Requeue = False, RequeueAfter = 5000000000\<rparr>, None), ?s')"
    by (simp add: example_defs model_defs)
  have ens: "ensureChild exampleReconciler exampleApi exampleParent
               (exampleCluster\<lparr>calls := [GetCloudSecret exampleKey]\<rparr>) =
             (Inr exampleChild,
              exampleCluster\<lparr>calls := [GetCloudSecret exampleKey, GetSecret exampleKey]\<rparr>)"
    by (simp add: example_defs model_defs)
  have stored: "secrets ?s' (secretKey exampleChild) =
                  Some (exampleChild\<lparr>Data := [''a'' \<mapsto> ''new'']\<rparr>)"
    by (simp add: example_defs model_defs)
  from Reconcile_resolves_every_reference [OF h1 h2 h3 h4] ens stored
  have "dom (Data (exampleChild\<lparr>Data := [''a'' \<mapsto> ''new'']\<rparr>))
          \<subseteq> fst ` set (CloudSecretSpec.Data (Spec exampleParent))"
    by auto
  with h1 h2 h3 h4 show ?thesis by blast
qed

section \<open>The payload is replaced, not merged\<close>

text \<open>
  Claim C4. The child is read from the store (with whatever payload an earlier cycle
  left in it), one reference resolves and another fails, and the cycle returns no
  error. Then the cycle ends with an update of the child that was read, with \<open>Data\<close>
  replaced; the stored payload has exactly the keys whose reference resolved in this
  cycle, the resolved key with its new bytes, and no entry for the key that failed,
  whatever the child held for it before.
\<close>

theorem Reconcile_replaces_payload:
  assumes found: "Get_CloudSecret (Client r) req s = (Inr cloudSecret, s1)"
      and prev: "Get_Secret (Client r) (GetChildSecretKey api cloudSecret) s1 = (Inr previous, s2)"
      and dist: "distinct (map fst (CloudSecretSpec.Data (Spec cloudSecret)))"
      and resolved: "(k1, v1) \<in> set (CloudSecretSpec.Data (Spec cloudSecret))"
                    "GcpSecrets r v1 = Inr b1"
      and failed: "(k2, v2) \<in> set (CloudSecretSpec.Data (Spec cloudSecret))"
                  "GcpSecrets r v2 = Inl e2"
      and ok: "Reconcile r api req s = ((res, None), s')"
  shows "\<exists>payload.
           secrets s' (secretKey previous) = Some (previous\<lparr>Data := payload\<rparr>) \<and>
           last (calls s') = UpdateSecret (previous\<lparr>Data := payload\<rparr>) \<and>
           dom payload = {k. \<exists>v b. (k, v) \<in> set (CloudSecretSpec.Data (Spec cloudSecret)) \<and>
                                   GcpSecrets r v = Inr b} \<and>
           payload k1 = Some b1 \<and> payload k2 = None"
proof -
  let ?refs = "CloudSecretSpec.Data (Spec cloudSecret)"
  let ?W = "workingPayload (GcpSecrets r) ?refs"
  let ?s3 = "s2\<lparr>calls := calls s2 @ map (\<lambda>kv. AccessSecretVersion (snd kv)) ?refs\<rparr>"
  from resolved have refs: "?refs \<noteq> []" by auto
  from prev have ens: "ensureChild r api cloudSecret s1 = (Inr previous, s2)"
    by (simp add: ensureChild_def)
  have W: "\<And>k b. ?W k = Some b \<longleftrightarrow> (\<exists>v. (k, v) \<in> set ?refs \<and> GcpSecrets r v = Inr b)"
    by (rule workingPayload_Some [OF dist])
  from resolved have k1: "?W k1 = Some b1" by (auto simp: W)
  then have ne: "?W \<noteq> Map.empty" by auto
  have k2: "?W k2 = None"
  proof (cases "?W k2")
    case (Some b)
    then obtain v where "(k2, v) \<in> set ?refs" and v: "GcpSecrets r v = Inr b"
      by (auto simp: W)
    with failed(1) dist have "v = v2" by (meson eq_key_imp_eq_value)
    with v failed(2) show ?thesis by simp
  qed simp
  have d: "dom ?W = {k. \<exists>v b. (k, v) \<in> set ?refs \<and> GcpSecrets r v = Inr b}"
    by (auto simp: W dom_def)
  from ok have pc: "persistChild r
         \<lparr>Requeue = False,
          RequeueAfter =
            (if someFailed (GcpSecrets r) ?refs \<and> defaultRetryTime <s recDelay cloudSecret
             then defaultRetryTime else recDelay cloudSecret)\<rparr>
         (previous\<lparr>Data := ?W\<rparr>) ?s3 = ((res, None), s')"
    by (simp add: Reconcile_refs [OF found ens refs])
  from persistChild_effect [OF pc] ne
  have "secrets s' (secretKey previous) = Some (previous\<lparr>Data := ?W\<rparr>)"
    and "last (calls s') = UpdateSecret (previous\<lparr>Data := ?W\<rparr>)"
    by (simp_all add: secretKey_def)
  with d k1 k2 show ?thesis by blast
qed


theorem Reconcile_replaces_payload_witness:
  "Get_CloudSecret (Client exampleReconciler) exampleKey exampleCluster =
     (Inr exampleParent, exampleCluster\<lparr>calls := [GetCloudSecret exampleKey]\<rparr>) \<and>
   Get_Secret (Client exampleReconciler) (GetChildSecretKey exampleApi exampleParent)
       (exampleCluster\<lparr>calls := [GetCloudSecret exampleKey]\<rparr>) =
     (Inr exampleChild,
      exampleCluster\<lparr>calls := [GetCloudSecret exampleKey, GetSecret exampleKey]\<rparr>) \<and>
   Data exampleChild ''a'' = Some ''old'' \<and> Data exampleChild ''b'' = Some ''old'' \<and>
   distinct (map fst (CloudSecretSpec.Data (Spec exampleParent))) \<and>
   (''a'', ''ra'') \<in> set (CloudSecretSpec.Data (Spec exampleParent)) \<and>
   GcpSecrets exampleReconciler ''ra'' = Inr ''new'' \<and>
   (''b'', ''rb'') \<in> set (CloudSecretSpec.Data (Spec exampleParent)) \<and>
   GcpSecrets exampleReconciler ''rb'' = Inl (Failure ''unavailable'') \<and>
   Reconcile exampleReconciler exampleApi exampleKey exampleCluster =
     ((\<lparr>Requeue = False, RequeueAfter = 5000000000\<rparr>, None),
      \<lparr>cloudSecrets = [exampleKey \<mapsto> exampleParent],
       secrets = [exampleKey \<mapsto> exampleChild\<lparr>Data := [''a'' \<mapsto> ''new'']\<rparr>],
       calls = [GetCloudSecret exampleKey, GetSecret exampleKey,
                AccessSecretVersion ''ra'', AccessSecretVersion ''rb'',
                UpdateSecret (exampleChild\<lparr>Data := [''a'' \<mapsto> ''new'']\<rparr>)]\<rparr>) \<and>
   (\<exists>payload.
      Some (exampleChild\<lparr>Data := [''a'' \<mapsto> ''new'']\<rparr>) = Some (exampleChild\<lparr>Data := payload\<rparr>) \<and>
      payload ''a'' = Some ''new'' \<and> payload ''b'' = None)"
proof -
  let ?s' = "\<lparr>cloudSecrets = [exampleKey \<mapsto> exampleParent],
       secrets = [exampleKey \<mapsto> exampleChild\<lparr>Data := [''a'' \<mapsto> ''new'']\<rparr>],
       calls = [GetCloudSecret exampleKey, GetSecret exampleKey,
                AccessSecretVersion ''ra'', AccessSecretVersion ''rb'',
                UpdateSecret (exampleChild\<lparr>Data := [''a'' \<mapsto> ''new'']\<rparr>)]\<rparr>"
  have h1: "Get_CloudSecret (Client exampleReconciler) exampleKey exampleCluster =
     (Inr exampleParent, exampleCluster\<lparr>calls := [GetCloudSecret exampleKey]\<rparr>)"
    by (simp add: example_defs model_defs)
  have h2: "Get_Secret (Client exampleReconciler) (GetChildSecretKey exampleApi exampleParent)
       (exampleCluster\<lparr>calls := [GetCloudSecret exampleKey]\<rparr>) =
     (Inr exampleChild,
      exampleCluster\<lparr>calls := [GetCloudSecret exampleKey, GetSecret exampleKey]\<rparr>)"
    by (simp add: example_defs model_defs)
  have old: "Data exampleChild ''a'' = Some ''old''" "Data exampleChild ''b'' = Some ''old''"
    by (simp_all add: example_defs)
  have h3: "distinct (map fst (CloudSecretSpec.Data (Spec exampleParent)))"
    by (simp add: example_defs)
  have h4: "(''a'', ''ra'') \<in> set (CloudSecretSpec.Data (Spec exampleParent))"
    by (simp add: example_defs)
  have h5: "GcpSecrets exampleReconciler ''ra'' = Inr ''new''"
    by (simp add: example_defs)
  have h6: "(''b'', ''rb'') \<in> set (CloudSecretSpec.Data (Spec exampleParent))"
    by (simp add: example_defs)
  have h7: "GcpSecrets exampleReconciler ''rb'' = Inl (Failure ''unavailable'')"
    by (simp add: example_defs)
  have h8: "Reconcile exampleReconciler exampleApi exampleKey exampleCluster =
     ((\<lparr>Requeue = False, RequeueAfter = 5000000000\<rparr>, None), ?s')"
    by (simp add: example_defs model_defs)
  have stored: "secrets ?s' (secretKey exampleChild) =
                  Some (exampleChild\<lparr>Data := [''a'' \<mapsto> ''new'']\<rparr>)"
    by (simp add: example_defs model_defs)
  from Reconcile_replaces_payload [OF h1 h2 h3 h4 h5 h6 h7 h8]
  obtain payload where
    "secrets ?s' (secretKey exampleChild) = Some (exampleChild\<lparr>Data := payload\<rparr>)"
    "payload ''a'' = Some ''new''" "payload ''b'' = None"
    by blast
  with stored have "\<exists>payload.
      Some (exampleChild\<lparr>Data := [''a'' \<mapsto> ''new'']\<rparr>) = Some (exampleChild\<lparr>Data := payload\<rparr>) \<and>
      payload ''a'' = Some ''new'' \<and> payload ''b'' = None"
    by metis
  with h1 h2 old h3 h4 h5 h6 h7 h8 show ?thesis by blast
qed

section \<open>Nothing resolved: the child is deleted\<close>

text \<open>
  Claim C5, as stated: when the parent has references and every resolution fails, the
  child is deleted and is never left in place with an empty payload, also when the
  delete fails. It fails when the child did not exist, was created by this cycle and
  the delete is rejected: the cycle returns the error of the delete, and the child
  that line 64 created is still stored, with an empty payload.
\<close>

theorem Reconcile_deletes_on_total_failure_counterexample:
  "CloudSecretSpec.Data (Spec exampleParent) = [(''a'', ''ra''), (''b'', ''rb'')] \<and>
   isl (failingGcp ''ra'') \<and> isl (failingGcp ''rb'') \<and>
   secrets (freshCluster exampleParent) exampleKey = None \<and>
   fst (Reconcile
      (exampleReconciler\<lparr>Client := noFaults\<lparr>deleteFault := Some (Failure ''forbidden'')\<rparr>,
                          GcpSecrets := failingGcp\<rparr>)
      exampleApi exampleKey (freshCluster exampleParent)) =
     (\<lparr>Requeue = False, RequeueAfter = 0\<rparr>, Some (Failure ''forbidden'')) \<and>
   calls (snd (Reconcile
      (exampleReconciler\<lparr>Client := noFaults\<lparr>deleteFault := Some (Failure ''forbidden'')\<rparr>,
                          GcpSecrets := failingGcp\<rparr>)
      exampleApi exampleKey (freshCluster exampleParent))) =
     [GetCloudSecret exampleKey, GetSecret exampleKey, CreateSecret (InitChildSecret exampleApi exampleParent),
      AccessSecretVersion ''ra'', AccessSecretVersion ''rb'',
      DeleteSecret ((createResponse noFaults (InitChildSecret exampleApi exampleParent))\<lparr>Data := Map.empty\<rparr>)] \<and>
   map_option Data (secrets (snd (Reconcile
      (exampleReconciler\<lparr>Client := noFaults\<lparr>deleteFault := Some (Failure ''forbidden'')\<rparr>,
                          GcpSecrets := failingGcp\<rparr>)
      exampleApi exampleKey (freshCluster exampleParent))) exampleKey) = Some Map.empty"
  by (simp add: example_defs model_defs)

text \<open>
  Claim C5, amended. The parent has references, lines 59-68 yield a child, and every
  access fails. Then, after the resolver calls, the cycle calls the delete on the child
  (with its emptied \<open>Data\<close>) and nothing else: it never updates the child with an empty
  payload. If the delete succeeds the cycle returns no error, no object is stored under
  the child's name, and the interval is the accelerated one (5 seconds if the base
  interval exceeds that, the base interval otherwise). If the delete fails, its error
  is returned with \<^verbatim>\<open>ctrl.Result{}\<close> and the store is as it was before the delete: the
  child stays in place, with the payload it had, which is empty when this cycle created
  it.
\<close>

theorem Reconcile_deletes_on_total_failure:
  assumes found: "Get_CloudSecret (Client r) req s = (Inr cloudSecret, s1)"
      and ens: "ensureChild r api cloudSecret s1 = (Inr childSecret, s2)"
      and refs: "CloudSecretSpec.Data (Spec cloudSecret) \<noteq> []"
      and allfail: "\<forall>kv \<in> set (CloudSecretSpec.Data (Spec cloudSecret)). isl (GcpSecrets r (snd kv))"
      and out: "Reconcile r api req s = ((res, err), s')"
  shows "calls s' = calls s2 @
           map (\<lambda>kv. AccessSecretVersion (snd kv)) (CloudSecretSpec.Data (Spec cloudSecret)) @
           [DeleteSecret (childSecret\<lparr>Data := Map.empty\<rparr>)] \<and>
         (err = None \<longrightarrow>
            secrets s' (secretKey childSecret) = None \<and>
            res = \<lparr>Requeue = False,
                   RequeueAfter = (if defaultRetryTime <s recDelay cloudSecret
                                   then defaultRetryTime else recDelay cloudSecret)\<rparr>) \<and>
         (err \<noteq> None \<longrightarrow>
            err = fst (Delete (Client r) (childSecret\<lparr>Data := Map.empty\<rparr>)
                         (s2\<lparr>calls := calls s2 @ map (\<lambda>kv. AccessSecretVersion (snd kv))
                                                   (CloudSecretSpec.Data (Spec cloudSecret))\<rparr>)) \<and>
            res = emptyResult \<and> RequeueAfter res = 0 \<and> secrets s' = secrets s2)"
proof -
  let ?refs = "CloudSecretSpec.Data (Spec cloudSecret)"
  let ?s3 = "s2\<lparr>calls := calls s2 @ map (\<lambda>kv. AccessSecretVersion (snd kv)) ?refs\<rparr>"
  from allfail have W: "workingPayload (GcpSecrets r) ?refs = Map.empty"
    by (simp add: workingPayload_empty)
  from refs allfail have sf: "someFailed (GcpSecrets r) ?refs"
    by (cases ?refs) auto
  from out have pc: "persistChild r
         \<lparr>Requeue = False,
          RequeueAfter =
            (if defaultRetryTime <s recDelay cloudSecret
             then defaultRetryTime else recDelay cloudSecret)\<rparr>
         (childSecret\<lparr>Data := Map.empty\<rparr>) ?s3 = ((res, err), s')"
    using sf by (simp add: Reconcile_refs [OF found ens refs] W)
  from persistChild_cases [OF pc]
  have del: "Delete (Client r) (childSecret\<lparr>Data := Map.empty\<rparr>) ?s3 = (err, s')"
    by simp
  from persistChild_effect [OF pc] del show ?thesis
    by (auto simp: secretKey_def emptyResult_def)
qed


theorem Reconcile_deletes_on_total_failure_witness:
  "Get_CloudSecret (Client (exampleReconciler\<lparr>GcpSecrets := failingGcp\<rparr>)) exampleKey
       (freshCluster exampleParent) =
     (Inr exampleParent, (freshCluster exampleParent)\<lparr>calls := [GetCloudSecret exampleKey]\<rparr>) \<and>
   ensureChild (exampleReconciler\<lparr>GcpSecrets := failingGcp\<rparr>) exampleApi exampleParent
       ((freshCluster exampleParent)\<lparr>calls := [GetCloudSecret exampleKey]\<rparr>) =
     (Inr (createResponse noFaults (InitChildSecret exampleApi exampleParent)),
      \<lparr>cloudSecrets = [exampleKey \<mapsto> exampleParent],
       secrets = [exampleKey \<mapsto> createResponse noFaults (InitChildSecret exampleApi exampleParent)],
       calls = [GetCloudSecret exampleKey, GetSecret exampleKey, CreateSecret (InitChildSecret exampleApi exampleParent)]\<rparr>) \<and>
   CloudSecretSpec.Data (Spec exampleParent) = [(''a'', ''ra''), (''b'', ''rb'')] \<and>
   isl (failingGcp ''ra'') \<and> isl (failingGcp ''rb'') \<and>
   Reconcile (exampleReconciler\<lparr>GcpSecrets := failingGcp\<rparr>) exampleApi exampleKey
       (freshCluster exampleParent) =
     ((\<lparr>Requeue = False, RequeueAfter = 5000000000\<rparr>, None),
      \<lparr>cloudSecrets = [exampleKey \<mapsto> exampleParent], secrets = Map.empty,
       calls = [GetCloudSecret exampleKey, GetSecret exampleKey, CreateSecret (InitChildSecret exampleApi exampleParent),
                AccessSecretVersion ''ra'', AccessSecretVersion ''rb'',
                DeleteSecret ((createResponse noFaults (InitChildSecret exampleApi exampleParent))\<lparr>Data := Map.empty\<rparr>)]\<rparr>) \<and>
   \<lparr>Requeue = False, RequeueAfter = 5000000000\<rparr> =
     \<lparr>Requeue = False,
      RequeueAfter = (if defaultRetryTime <s recDelay exampleParent
                      then defaultRetryTime else recDelay exampleParent)\<rparr>"
proof -
  let ?r = "exampleReconciler\<lparr>GcpSecrets := failingGcp\<rparr>"
  let ?init = "InitChildSecret exampleApi exampleParent"
  let ?created = "createResponse noFaults (InitChildSecret exampleApi exampleParent)"
  let ?s1 = "(freshCluster exampleParent)\<lparr>calls := [GetCloudSecret exampleKey]\<rparr>"
  let ?s2 = "\<lparr>cloudSecrets = [exampleKey \<mapsto> exampleParent],
       secrets = [exampleKey \<mapsto> ?created],
       calls = [GetCloudSecret exampleKey, GetSecret exampleKey, CreateSecret ?init]\<rparr>"
  let ?s' = "\<lparr>cloudSecrets = [exampleKey \<mapsto> exampleParent], secrets = Map.empty,
       calls = [GetCloudSecret exampleKey, GetSecret exampleKey, CreateSecret ?init,
                AccessSecretVersion ''ra'', AccessSecretVersion ''rb'',
                DeleteSecret (?created\<lparr>Data := Map.empty\<rparr>)]\<rparr>"
  have h1: "Get_CloudSecret (Client ?r) exampleKey (freshCluster exampleParent) =
              (Inr exampleParent, ?s1)"
    by (simp add: example_defs model_defs)
  have h2: "ensureChild ?r exampleApi exampleParent ?s1 = (Inr ?created, ?s2)"
    by (simp add: example_defs model_defs)
  have refs: "CloudSecretSpec.Data (Spec exampleParent) = [(''a'', ''ra''), (''b'', ''rb'')]"
    by (simp add: example_defs)
  then have h3: "CloudSecretSpec.Data (Spec exampleParent) \<noteq> []" by simp
  have f: "isl (failingGcp ''ra'')" "isl (failingGcp ''rb'')"
    by (simp_all add: failingGcp_def)
  have h4: "\<forall>kv \<in> set (CloudSecretSpec.Data (Spec exampleParent)). isl (GcpSecrets ?r (snd kv))"
    by (simp add: refs failingGcp_def)
  have h5: "Reconcile ?r exampleApi exampleKey (freshCluster exampleParent) =
     ((\<lparr>Requeue = False, RequeueAfter = 5000000000\<rparr>, None), ?s')"
    by (simp add: example_defs model_defs)
  from Reconcile_deletes_on_total_failure [OF h1 h2 h3 h4 h5]
  have "\<lparr>Requeue = False, RequeueAfter = 5000000000\<rparr> =
     \<lparr>Requeue = False,
      RequeueAfter = (if defaultRetryTime <s recDelay exampleParent
                      then defaultRetryTime else recDelay exampleParent)\<rparr>"
    by blast
  with h1 h2 refs f h5 show ?thesis by blast
qed

section \<open>The update passes the child on with only its data replaced\<close>

text \<open>
  Claim C10, as stated: on the update path every field but \<open>Data\<close> reaches the update as
  it was fetched from the store or, for a child created in this cycle, as it was
  freshly initialized. It fails for a child created in this cycle: line 64 hands
  \<^verbatim>\<open>&childSecret\<close> to the create, which writes the server's answer into it, so the
  object of line 108 carries the metadata of the answer. With a server that sets the
  resource version 1, the initial child has no resource version and the object passed
  to the update has the resource version 1.
\<close>

theorem Reconcile_update_changes_only_Data_counterexample:
  "calls (snd (Reconcile exampleReconciler exampleApi exampleKey (freshCluster exampleParent))) =
     [GetCloudSecret exampleKey, GetSecret exampleKey, CreateSecret (InitChildSecret exampleApi exampleParent),
      AccessSecretVersion ''ra'', AccessSecretVersion ''rb'',
      UpdateSecret ((createResponse noFaults (InitChildSecret exampleApi exampleParent))\<lparr>Data := [''a'' \<mapsto> ''new'']\<rparr>)] \<and>
   ResourceVersion (Secret.ObjectMeta (InitChildSecret exampleApi exampleParent)) = [] \<and>
   ResourceVersion (Secret.ObjectMeta ((createResponse noFaults (InitChildSecret exampleApi exampleParent))\<lparr>Data := [''a'' \<mapsto> ''new'']\<rparr>)) = ''1'' \<and>
   Secret.ObjectMeta ((createResponse noFaults (InitChildSecret exampleApi exampleParent))\<lparr>Data := [''a'' \<mapsto> ''new'']\<rparr>) \<noteq> Secret.ObjectMeta (InitChildSecret exampleApi exampleParent)"
  by (simp add: example_defs model_defs)

text \<open>
  Claim C10, amended. When at least one reference resolves, the cycle ends with an
  update whose argument is the child with which lines 59-68 end, with its \<open>Data\<close>
  replaced by a non-empty payload: metadata (which holds name, namespace, labels, owner
  references and resource version) and type are those of that child. That child is
  the object that the read returned or, when it was created in this cycle, the initial
  child as the create left it, that is, the server's answer to the create.
\<close>

theorem Reconcile_update_changes_only_Data:
  assumes found: "Get_CloudSecret (Client r) req s = (Inr cloudSecret, s1)"
      and ens: "ensureChild r api cloudSecret s1 = (Inr childSecret, s2)"
      and resolved: "(k, v) \<in> set (CloudSecretSpec.Data (Spec cloudSecret))"
                    "GcpSecrets r v = Inr b"
      and out: "Reconcile r api req s = (ret, s')"
  shows "\<exists>payload.
           calls s' = calls s2 @
             map (\<lambda>kv. AccessSecretVersion (snd kv)) (CloudSecretSpec.Data (Spec cloudSecret)) @
             [UpdateSecret (childSecret\<lparr>Data := payload\<rparr>)] \<and>
           payload \<noteq> Map.empty \<and>
           Secret.ObjectMeta (childSecret\<lparr>Data := payload\<rparr>) = Secret.ObjectMeta childSecret \<and>
           Type (childSecret\<lparr>Data := payload\<rparr>) = Type childSecret \<and>
           secretKey (childSecret\<lparr>Data := payload\<rparr>) = secretKey childSecret \<and>
           (Get_Secret (Client r) (GetChildSecretKey api cloudSecret) s1 = (Inr childSecret, s2)
            \<or> childSecret = createResponse (Client r) (InitChildSecret api cloudSecret))"
proof -
  let ?refs = "CloudSecretSpec.Data (Spec cloudSecret)"
  let ?W = "workingPayload (GcpSecrets r) ?refs"
  let ?s3 = "s2\<lparr>calls := calls s2 @ map (\<lambda>kv. AccessSecretVersion (snd kv)) ?refs\<rparr>"
  from resolved have refs: "?refs \<noteq> []" by auto
  from resolved have ne: "?W \<noteq> Map.empty"
    by (force simp: workingPayload_empty)
  obtain res err where ret: "ret = (res, err)" by (cases ret)
  from out have pc: "persistChild r
         \<lparr>Requeue = False,
          RequeueAfter =
            (if someFailed (GcpSecrets r) ?refs \<and> defaultRetryTime <s recDelay cloudSecret
             then defaultRetryTime else recDelay cloudSecret)\<rparr>
         (childSecret\<lparr>Data := ?W\<rparr>) ?s3 = ((res, err), s')"
    by (simp add: Reconcile_refs [OF found ens refs] ret)
  from persistChild_effect [OF pc] ne
  have c: "calls s' = calls s2 @ map (\<lambda>kv. AccessSecretVersion (snd kv)) ?refs @
             [UpdateSecret (childSecret\<lparr>Data := ?W\<rparr>)]"
    by simp
  from ensureChild_effect [OF ens]
  have o: "Get_Secret (Client r) (GetChildSecretKey api cloudSecret) s1 = (Inr childSecret, s2)
            \<or> childSecret = createResponse (Client r) (InitChildSecret api cloudSecret)"
    by auto
  have "Secret.ObjectMeta (childSecret\<lparr>Data := ?W\<rparr>) = Secret.ObjectMeta childSecret"
       "Type (childSecret\<lparr>Data := ?W\<rparr>) = Type childSecret"
       "secretKey (childSecret\<lparr>Data := ?W\<rparr>) = secretKey childSecret"
    by (simp_all add: secretKey_def)
  with c ne o show ?thesis by blast
qed


theorem Reconcile_update_changes_only_Data_witness:
  "Get_CloudSecret (Client exampleReconciler) exampleKey (freshCluster exampleParent) =
     (Inr exampleParent, (freshCluster exampleParent)\<lparr>calls := [GetCloudSecret exampleKey]\<rparr>) \<and>
   ensureChild exampleReconciler exampleApi exampleParent
       ((freshCluster exampleParent)\<lparr>calls := [GetCloudSecret exampleKey]\<rparr>) =
     (Inr (createResponse noFaults (InitChildSecret exampleApi exampleParent)),
      \<lparr>cloudSecrets = [exampleKey \<mapsto> exampleParent],
       secrets = [exampleKey \<mapsto> createResponse noFaults (InitChildSecret exampleApi exampleParent)],
       calls = [GetCloudSecret exampleKey, GetSecret exampleKey, CreateSecret (InitChildSecret exampleApi exampleParent)]\<rparr>) \<and>
   (''a'', ''ra'') \<in> set (CloudSecretSpec.Data (Spec exampleParent)) \<and>
   GcpSecrets exampleReconciler ''ra'' = Inr ''new'' \<and>
   Reconcile exampleReconciler exampleApi exampleKey (freshCluster exampleParent) =
     ((\<lparr>Requeue = False, RequeueAfter = 5000000000\<rparr>, None),
      \<lparr>cloudSecrets = [exampleKey \<mapsto> exampleParent],
       secrets = [exampleKey \<mapsto> (createResponse noFaults (InitChildSecret exampleApi exampleParent))\<lparr>Data := [''a'' \<mapsto> ''new'']\<rparr>],
       calls = [GetCloudSecret exampleKey, GetSecret exampleKey, CreateSecret (InitChildSecret exampleApi exampleParent),
                AccessSecretVersion ''ra'', AccessSecretVersion ''rb'',
                UpdateSecret ((createResponse noFaults (InitChildSecret exampleApi exampleParent))\<lparr>Data := [''a'' \<mapsto> ''new'']\<rparr>)]\<rparr>) \<and>
   (\<exists>payload.
      [GetCloudSecret exampleKey, GetSecret exampleKey, CreateSecret (InitChildSecret exampleApi exampleParent),
       AccessSecretVersion ''ra'', AccessSecretVersion ''rb'',
       UpdateSecret ((createResponse noFaults (InitChildSecret exampleApi exampleParent))\<lparr>Data := [''a'' \<mapsto> ''new'']\<rparr>)] =
      [GetCloudSecret exampleKey, GetSecret exampleKey, CreateSecret (InitChildSecret exampleApi exampleParent),
       AccessSecretVersion ''ra'', AccessSecretVersion ''rb'',
       UpdateSecret ((createResponse noFaults (InitChildSecret exampleApi exampleParent))\<lparr>Data := payload\<rparr>)] \<and>
      Secret.ObjectMeta ((createResponse noFaults (InitChildSecret exampleApi exampleParent))\<lparr>Data := payload\<rparr>) = Secret.ObjectMeta (createResponse noFaults (InitChildSecret exampleApi exampleParent)))"
proof -
  let ?init = "InitChildSecret exampleApi exampleParent"
  let ?created = "createResponse noFaults (InitChildSecret exampleApi exampleParent)"
  let ?s1 = "(freshCluster exampleParent)\<lparr>calls := [GetCloudSecret exampleKey]\<rparr>"
  let ?s2 = "\<lparr>cloudSecrets = [exampleKey \<mapsto> exampleParent],
       secrets = [exampleKey \<mapsto> ?created],
       calls = [GetCloudSecret exampleKey, GetSecret exampleKey, CreateSecret ?init]\<rparr>"
  let ?s' = "\<lparr>cloudSecrets = [exampleKey \<mapsto> exampleParent],
       secrets = [exampleKey \<mapsto> ?created\<lparr>Data := [''a'' \<mapsto> ''new'']\<rparr>],
       calls = [GetCloudSecret exampleKey, GetSecret exampleKey, CreateSecret ?init,
                AccessSecretVersion ''ra'', AccessSecretVersion ''rb'',
                UpdateSecret (?created\<lparr>Data := [''a'' \<mapsto> ''new'']\<rparr>)]\<rparr>"
  have h1: "Get_CloudSecret (Client exampleReconciler) exampleKey (freshCluster exampleParent) =
              (Inr exampleParent, ?s1)"
    by (simp add: example_defs model_defs)
  have h2: "ensureChild exampleReconciler exampleApi exampleParent ?s1 = (Inr ?created, ?s2)"
    by (simp add: example_defs model_defs)
  have h3: "(''a'', ''ra'') \<in> set (CloudSecretSpec.Data (Spec exampleParent))"
    by (simp add: example_defs)
  have h4: "GcpSecrets exampleReconciler ''ra'' = Inr ''new''"
    by (simp add: example_defs)
  have h5: "Reconcile exampleReconciler exampleApi exampleKey (freshCluster exampleParent) =
     ((\<lparr>Requeue = False, RequeueAfter = 5000000000\<rparr>, None), ?s')"
    by (simp add: example_defs model_defs)
  have refs: "map (\<lambda>kv. AccessSecretVersion (snd kv)) (CloudSecretSpec.Data (Spec exampleParent)) =
              [AccessSecretVersion ''ra'', AccessSecretVersion ''rb'']"
    by (simp add: example_defs)
  from Reconcile_update_changes_only_Data [OF h1 h2 h3 h4 h5]
  obtain payload where
    "calls ?s' = calls ?s2 @
       map (\<lambda>kv. AccessSecretVersion (snd kv)) (CloudSecretSpec.Data (Spec exampleParent)) @
       [UpdateSecret (?created\<lparr>Data := payload\<rparr>)]"
    "Secret.ObjectMeta (?created\<lparr>Data := payload\<rparr>) = Secret.ObjectMeta ?created"
    by blast
  then have "\<exists>payload.
      [GetCloudSecret exampleKey, GetSecret exampleKey, CreateSecret ?init,
       AccessSecretVersion ''ra'', AccessSecretVersion ''rb'',
       UpdateSecret (?created\<lparr>Data := [''a'' \<mapsto> ''new'']\<rparr>)] =
      [GetCloudSecret exampleKey, GetSecret exampleKey, CreateSecret ?init,
       AccessSecretVersion ''ra'', AccessSecretVersion ''rb'',
       UpdateSecret (?created\<lparr>Data := payload\<rparr>)] \<and>
      Secret.ObjectMeta (?created\<lparr>Data := payload\<rparr>) = Secret.ObjectMeta ?created"
    unfolding refs by (intro exI [of _ payload]) simp
  with h1 h2 h3 h4 h5 show ?thesis by blast
qed

section \<open>A failed read of the child\<close>

text \<open>
  Claim C2 says that a read of the child that fails with an error other than NotFound
  ends the cycle with that error and without any write. Line 61 does not look at the
  kind of the error: the comment of line 59 says "creating it if not found", but the
  create of line 64 runs on every error, and the error of the read is dropped. With
  the read timing out: on the cluster where the child exists, the create is attempted
  and its AlreadyExists error is what the cycle returns; on the cluster where the
  child does not exist, the child is created, filled and updated, and the cycle
  returns no error at all.
\<close>

theorem Reconcile_child_read_error_creates:
  "fst (Get_Secret
      (Client (exampleReconciler\<lparr>Client := noFaults\<lparr>getSecretFault := Some (Failure ''timeout'')\<rparr>\<rparr>))
      (GetChildSecretKey exampleApi exampleParent)
      (exampleCluster\<lparr>calls := [GetCloudSecret exampleKey]\<rparr>)) = Inl (Failure ''timeout'') \<and>
   Reconcile
      (exampleReconciler\<lparr>Client := noFaults\<lparr>getSecretFault := Some (Failure ''timeout'')\<rparr>\<rparr>)
      exampleApi exampleKey exampleCluster =
     ((\<lparr>Requeue = False, RequeueAfter = 0\<rparr>, Some AlreadyExists),
      exampleCluster\<lparr>calls := [GetCloudSecret exampleKey, GetSecret exampleKey,
                                 CreateSecret (InitChildSecret exampleApi exampleParent)]\<rparr>) \<and>
   Reconcile
      (exampleReconciler\<lparr>Client := noFaults\<lparr>getSecretFault := Some (Failure ''timeout'')\<rparr>\<rparr>)
      exampleApi exampleKey (freshCluster exampleParent) =
     ((\<lparr>Requeue = False, RequeueAfter = 5000000000\<rparr>, None),
      \<lparr>cloudSecrets = [exampleKey \<mapsto> exampleParent],
       secrets = [exampleKey \<mapsto> (createResponse noFaults (InitChildSecret exampleApi exampleParent))\<lparr>Data := [''a'' \<mapsto> ''new'']\<rparr>],
       calls = [GetCloudSecret exampleKey, GetSecret exampleKey,
                CreateSecret (InitChildSecret exampleApi exampleParent),
                AccessSecretVersion ''ra'', AccessSecretVersion ''rb'',
                UpdateSecret ((createResponse noFaults (InitChildSecret exampleApi exampleParent))\<lparr>Data := [''a'' \<mapsto> ''new'']\<rparr>)]\<rparr>)"
  by (simp add: example_defs model_defs)

section \<open>A second cycle changes nothing\<close>

lemma reconcileStore_idem:
  "reconcileStore r api cloudSecret (reconcileStore r api cloudSecret S) =
   reconcileStore r api cloudSecret S"
proof -
  let ?W = "workingPayload (GcpSecrets r) (CloudSecretSpec.Data (Spec cloudSecret))"
  have key: "\<And>c p. secretKey (c\<lparr>Data := p\<rparr>) = secretKey c"
    by (simp add: secretKey_def)
  show ?thesis
    unfolding reconcileStore_def persistStore_def Let_def
    by (cases "CloudSecretSpec.Data (Spec cloudSecret) = []"; cases "?W = Map.empty";
        cases "getSecretFault (Client r)"; cases "createFault (Client r)";
        cases "deleteFault (Client r)"; cases "updateFault (Client r)";
        cases "S (GetChildSecretKey api cloudSecret)";
        cases "S (secretKey (createResponse (Client r) (InitChildSecret api cloudSecret)))")
       (auto simp: key fun_upd_idem split: option.splits if_splits)
qed

text \<open>
  Claim C9. Run a cycle, then run it again on the cluster that the first one left,
  with the same reconciler: the resolver gives the same answers, and the client fails
  or not as it did before. The secrets in the store after the second cycle are those
  after the first, so every stored payload is identical. (The \<open>Data\<close> of the parent is
  visited in the same order both times; by \<open>workingPayload_order\<close> the order does not
  matter for a map, whose keys are distinct.)
\<close>

theorem Reconcile_idempotent:
  "secrets (snd (Reconcile r api req (snd (Reconcile r api req s)))) =
   secrets (snd (Reconcile r api req s)) \<and>
   (\<forall>key. map_option Data (secrets (snd (Reconcile r api req (snd (Reconcile r api req s)))) key) =
          map_option Data (secrets (snd (Reconcile r api req s)) key))"
proof -
  have "secrets (snd (Reconcile r api req (snd (Reconcile r api req s)))) =
        secrets (snd (Reconcile r api req s))"
  proof -
    obtain a s1 where get: "Get_CloudSecret (Client r) req s = (a, s1)"
      by (cases "Get_CloudSecret (Client r) req s")
    show ?thesis
    proof (cases a)
      case (Inl err)
      with get have first: "Reconcile r api req s = ((emptyResult, IgnoreNotFound err), s1)"
        by (simp add: Reconcile_notfound)
      from Get_CloudSecret_effect [OF get]
      have s1: "s1 = s\<lparr>calls := calls s @ [GetCloudSecret req]\<rparr>" .
      from get Inl have "Get_CloudSecret (Client r) req s1 =
          (Inl err, s1\<lparr>calls := calls s1 @ [GetCloudSecret req]\<rparr>)"
        by (auto simp: s1 Get_CloudSecret_def logCall_def Let_def split: option.splits)
      then have "secrets (snd (Reconcile r api req s1)) = secrets s1"
        by (simp add: Reconcile_notfound)
      with first show ?thesis by simp
    next
      case (Inr cloudSecret)
      with get have found: "Get_CloudSecret (Client r) req s = (Inr cloudSecret, s1)" by simp
      let ?s' = "snd (Reconcile r api req s)"
      have cs: "cloudSecrets ?s' = cloudSecrets s"
        by (rule Reconcile_store_found(2) [OF found])
      from found have "Get_CloudSecret (Client r) req ?s' =
          (Inr cloudSecret, ?s'\<lparr>calls := calls ?s' @ [GetCloudSecret req]\<rparr>)"
        by (auto simp: cs Get_CloudSecret_def logCall_def Let_def split: option.splits)
      then have "secrets (snd (Reconcile r api req ?s')) =
                   reconcileStore r api cloudSecret (secrets ?s')"
        by (rule Reconcile_store_found(1))
      then show ?thesis
        by (simp add: Reconcile_store_found(1) [OF found] reconcileStore_idem)
    qed
  qed
  then show ?thesis by simp
qed

theorem Reconcile_idempotent_witness:
  "secrets (snd (Reconcile exampleReconciler exampleApi exampleKey (freshCluster exampleParent))) =
     [exampleKey \<mapsto> (createResponse noFaults (InitChildSecret exampleApi exampleParent))\<lparr>Data := [''a'' \<mapsto> ''new'']\<rparr>] \<and>
   secrets (snd (Reconcile exampleReconciler exampleApi exampleKey
      (snd (Reconcile exampleReconciler exampleApi exampleKey (freshCluster exampleParent))))) =
     [exampleKey \<mapsto> (createResponse noFaults (InitChildSecret exampleApi exampleParent))\<lparr>Data := [''a'' \<mapsto> ''new'']\<rparr>]"
proof -
  have first:
    "secrets (snd (Reconcile exampleReconciler exampleApi exampleKey (freshCluster exampleParent))) =
       [exampleKey \<mapsto> (createResponse noFaults (InitChildSecret exampleApi exampleParent))\<lparr>Data := [''a'' \<mapsto> ''new'']\<rparr>]"
    by (simp add: example_defs model_defs)
  from Reconcile_idempotent [of exampleReconciler exampleApi exampleKey "freshCluster exampleParent"]
  have "secrets (snd (Reconcile exampleReconciler exampleApi exampleKey
      (snd (Reconcile exampleReconciler exampleApi exampleKey (freshCluster exampleParent))))) =
        secrets (snd (Reconcile exampleReconciler exampleApi exampleKey (freshCluster exampleParent)))"
    by (rule conjunct1)
  with first show ?thesis by simp
qed

end
